theory Spec2Isabelle
  imports Main
begin

section \<open>Values, strings and errors\<close>

text \<open>
  The embedding follows \<^verbatim>\<open>preppy.py\<close> on its Python 3 branch (\<^verbatim>\<open>isPy3\<close> true,
  \<^verbatim>\<open>isPy310\<close> true): \<^verbatim>\<open>unicodeT = str\<close>, \<^verbatim>\<open>bytesT = bytes\<close> and
  \<^verbatim>\<open>strTypes = (str, bytes)\<close>.

  A Python \<^verbatim>\<open>str\<close> is a list of code points and a \<^verbatim>\<open>bytes\<close> object a list of byte
  values, both as natural numbers. An exception is a value of \<open>pyerr\<close>; a function that
  may raise returns \<open>pyerr + 'a\<close>.
\<close>

type_synonym ustr = "nat list"
type_synonym bstr = "nat list"

text \<open>
  \<open>SyntaxError msg pos\<close> is the \<^verbatim>\<open>SyntaxError\<close> that \<^verbatim>\<open>__lexerror(msg, pos)\<close> raises; the
  text it builds around \<^verbatim>\<open>msg\<close> (the source line, a caret, the line number and the file
  name) is a function of the source and \<open>pos\<close> and is not kept.
\<close>

datatype pyerr =
    IndexError
  | KeyError
  | AttributeError
  | TypeError
  | UnicodeDecodeError
  | UnicodeEncodeError
  | ValueError string
  | SyntaxError ustr nat
  | OSError
  | AssertionError
  | UserError string

text \<open>The code points of an ASCII literal.\<close>

definition u :: "string \<Rightarrow> ustr" where
  "u s = map of_char s"

text \<open>
  The classes of text the module tells apart with \<^verbatim>\<open>isinstance\<close>: plain \<^verbatim>\<open>str\<close>,
  \<^verbatim>\<open>SafeUnicode\<close> and \<^verbatim>\<open>__wsscontroller__.ignore\<close> (both subclasses of \<^verbatim>\<open>str\<close>);
  for bytes the flag says whether the object is a \<^verbatim>\<open>SafeString\<close>.
  \<open>PObj r\<close> is any object that is neither text, bytes nor \<^verbatim>\<open>None\<close>; \<open>r\<close> is what its
  \<^verbatim>\<open>__str__()\<close> method returns or raises (every Python 3 object has that method, so the
  \<^verbatim>\<open>__bytes__\<close> and \<^verbatim>\<open>str(s)\<close> fallbacks of the conversion functions are never taken).
\<close>

datatype strcls = Plain | SafeU | Ignore

datatype pyval =
    PStr strcls ustr
  | PBytes bool bstr
  | PNone
  | PObj "pyerr + pyval"

subsection \<open>The UTF-8 codec\<close>

definition encode_cp :: "nat \<Rightarrow> pyerr + bstr" where
  "encode_cp c =
     (if c < 128 then Inr [c]
      else if c < 2048 then Inr [192 + c div 64, 128 + c mod 64]
      else if 55296 \<le> c \<and> c < 57344 then Inl UnicodeEncodeError
      else if c < 65536 then
        Inr [224 + c div 4096, 128 + (c div 64) mod 64, 128 + c mod 64]
      else if c < 1114112 then
        Inr [240 + c div 262144, 128 + (c div 4096) mod 64,
             128 + (c div 64) mod 64, 128 + c mod 64]
      else Inl UnicodeEncodeError)"

fun utf8_encode :: "ustr \<Rightarrow> pyerr + bstr" where
  "utf8_encode [] = Inr []"
| "utf8_encode (c # cs) =
     (case encode_cp c of
        Inl e \<Rightarrow> Inl e
      | Inr bs \<Rightarrow> (case utf8_encode cs of Inl e \<Rightarrow> Inl e | Inr r \<Rightarrow> Inr (bs @ r)))"

definition is_cont :: "nat \<Rightarrow> bool" where
  "is_cont b = (128 \<le> b \<and> b < 192)"

text \<open>
  One code point off the front of a byte string: the code point and the number of
  bytes it took, or \<open>None\<close> where the strict decoder rejects the sequence (a stray
  continuation byte, an overlong form, a surrogate, a value above U+10FFFF, a
  truncated sequence).
\<close>

fun decode_cp :: "bstr \<Rightarrow> (nat \<times> nat) option" where
  "decode_cp [] = None"
| "decode_cp (b0 # bs) =
     (if b0 < 128 then Some (b0, 1)
      else if 194 \<le> b0 \<and> b0 < 224 then
        (case bs of
           b1 # _ \<Rightarrow> if is_cont b1 then Some ((b0 - 192) * 64 + (b1 - 128), 2) else None
         | _ \<Rightarrow> None)
      else if 224 \<le> b0 \<and> b0 < 240 then
        (case bs of
           b1 # b2 # _ \<Rightarrow>
             if is_cont b1 \<and> is_cont b2 \<and> (if b0 = 224 then 160 \<le> b1 else True)
                \<and> (if b0 = 237 then b1 < 160 else True)
             then Some ((b0 - 224) * 4096 + (b1 - 128) * 64 + (b2 - 128), 3) else None
         | _ \<Rightarrow> None)
      else if 240 \<le> b0 \<and> b0 < 245 then
        (case bs of
           b1 # b2 # b3 # _ \<Rightarrow>
             if is_cont b1 \<and> is_cont b2 \<and> is_cont b3
                \<and> (if b0 = 240 then 144 \<le> b1 else True)
                \<and> (if b0 = 244 then b1 < 144 else True)
             then Some ((b0 - 240) * 262144 + (b1 - 128) * 4096 + (b2 - 128) * 64 + (b3 - 128), 4)
             else None
         | _ \<Rightarrow> None)
      else None)"

fun utf8_decode_n :: "nat \<Rightarrow> bstr \<Rightarrow> pyerr + ustr" where
  "utf8_decode_n 0 bs = (if bs = [] then Inr [] else Inl UnicodeDecodeError)"
| "utf8_decode_n (Suc n) bs =
     (if bs = [] then Inr []
      else case decode_cp bs of
        None \<Rightarrow> Inl UnicodeDecodeError
      | Some (c, k) \<Rightarrow>
          (case utf8_decode_n n (drop k bs) of Inl e \<Rightarrow> Inl e | Inr r \<Rightarrow> Inr (c # r)))"

text \<open>Every step consumes at least one byte, so the length of the input is enough fuel.\<close>

definition utf8_decode :: "bstr \<Rightarrow> pyerr + ustr" where
  "utf8_decode bs = utf8_decode_n (length bs) bs"

subsection \<open>\<^verbatim>\<open>asUtf8\<close>, \<^verbatim>\<open>asUnicode\<close>\<close>

text \<open>
  \<^verbatim>\<open>s.decode('utf8')\<close> and \<^verbatim>\<open>s.encode('utf8')\<close> as method calls: an object without the
  method raises \<^verbatim>\<open>AttributeError\<close>. The result of either is a plain object.
\<close>

fun py_decode :: "pyval \<Rightarrow> pyerr + pyval" where
  "py_decode (PBytes _ b) =
     (case utf8_decode b of Inl e \<Rightarrow> Inl e | Inr t \<Rightarrow> Inr (PStr Plain t))"
| "py_decode _ = Inl AttributeError"

fun py_encode :: "pyval \<Rightarrow> pyerr + pyval" where
  "py_encode (PStr _ t) =
     (case utf8_encode t of Inl e \<Rightarrow> Inl e | Inr b \<Rightarrow> Inr (PBytes False b))"
| "py_encode _ = Inl AttributeError"

fun is_bytes :: "pyval \<Rightarrow> bool" where
  "is_bytes (PBytes _ _) = True"
| "is_bytes _ = False"

fun is_text :: "pyval \<Rightarrow> bool" where
  "is_text (PStr _ _) = True"
| "is_text _ = False"

definition asUtf8 :: "pyval \<Rightarrow> pyerr + pyval" where
  "asUtf8 s = (if is_bytes s then Inr s else py_encode s)"

definition asUnicode :: "pyval \<Rightarrow> pyerr + pyval" where
  "asUnicode s = (if is_text s then Inr s else py_decode s)"

section \<open>The whitespace controller\<close>

text \<open>The class attribute \<^verbatim>\<open>wsc\<close>; LINE FEED (10) is commented out in the source.\<close>

definition wsc :: "nat list" where
  "wsc = [9, 11, 12, 13, 28, 29, 30, 31, 32, 133, 160, 5760,
          8192, 8193, 8194, 8195, 8196, 8197, 8198, 8199, 8200, 8201, 8202, 8203,
          8232, 8233, 8239, 8287, 12288]"

text \<open>
  \<^verbatim>\<open>pats[k].sub('', s)\<close>: pattern 1 is \<^verbatim>\<open>^[wsc]*\<close>, pattern 2 is \<^verbatim>\<open>^[wsc\n]*\<close>, neither
  compiled with \<^verbatim>\<open>re.M\<close>, so the only match is the longest run of class characters
  at the start of the string. Any other key raises \<^verbatim>\<open>KeyError\<close>.
\<close>

definition pats_sub :: "nat \<Rightarrow> ustr \<Rightarrow> pyerr + ustr" where
  "pats_sub k s =
     (if k = 1 then Inr (dropWhile (\<lambda>c. c \<in> set wsc) s)
      else if k = 2 then Inr (dropWhile (\<lambda>c. c \<in> set (wsc @ [10])) s)
      else Inl KeyError)"

record wsscontroller =
  ws :: nat

definition wss_init :: wsscontroller where
  "wss_init = \<lparr>ws = 0\<rparr>"

definition dnl :: "wsscontroller \<Rightarrow> pyval \<times> wsscontroller" where
  "dnl w = (PStr Ignore [], w\<lparr>ws := 1\<rparr>)"

definition dws :: "wsscontroller \<Rightarrow> pyval \<times> wsscontroller" where
  "dws w = (PStr Ignore [], w\<lparr>ws := 2\<rparr>)"

fun is_ignore :: "pyval \<Rightarrow> bool" where
  "is_ignore (PStr Ignore _) = True"
| "is_ignore _ = False"

definition x :: "wsscontroller \<Rightarrow> pyval \<Rightarrow> pyval \<times> wsscontroller" where
  "x w s = (if \<not> is_ignore s then (s, w\<lparr>ws := 0\<rparr>) else (s, w))"

text \<open>
  The body of \<^verbatim>\<open>c\<close> after \<^verbatim>\<open>self.ws = 0\<close>, for a text argument: the substitution, then
  \<^verbatim>\<open>if ws==1 and s[0]==u'\n': s = s[1:]\<close>. The index \<^verbatim>\<open>s[0]\<close> is evaluated only when
  \<^verbatim>\<open>ws==1\<close>, and raises \<^verbatim>\<open>IndexError\<close> on the empty string.
\<close>

definition c_strip :: "nat \<Rightarrow> ustr \<Rightarrow> pyerr + ustr" where
  "c_strip k s =
     (case pats_sub k s of
        Inl e \<Rightarrow> Inl e
      | Inr t \<Rightarrow>
          if k = 1 then
            (case t of
               [] \<Rightarrow> Inl IndexError
             | h # r \<Rightarrow> if h = 10 then Inr r else Inr t)
          else Inr t)"

text \<open>
  \<^verbatim>\<open>c\<close>: the state is read and reset first; with a nonzero state a bytes argument is
  decoded, stripped and encoded again, a text argument is stripped, and anything else
  makes \<^verbatim>\<open>sub\<close> raise \<^verbatim>\<open>TypeError\<close>. The result comes with the controller as the call
  leaves it, also when the call raises.
\<close>

definition c :: "wsscontroller \<Rightarrow> pyval \<Rightarrow> (pyerr + pyval) \<times> wsscontroller" where
  "c w s =
     (let k = ws w; w' = w\<lparr>ws := 0\<rparr> in
      if k \<noteq> 0 then
        (case s of
           PBytes _ b \<Rightarrow>
             (case utf8_decode b of
                Inl e \<Rightarrow> (Inl e, w')
              | Inr t \<Rightarrow>
                  (case c_strip k t of
                     Inl e \<Rightarrow> (Inl e, w')
                   | Inr t' \<Rightarrow> (asUtf8 (PStr Plain t'), w')))
         | PStr _ t \<Rightarrow>
             (case c_strip k t of
                Inl e \<Rightarrow> (Inl e, w')
              | Inr t' \<Rightarrow> (Inr (PStr Plain t'), w'))
         | _ \<Rightarrow> (Inl TypeError, w'))
      else (Inr s, w'))"

section \<open>The standard conversions\<close>

text \<open>\<^verbatim>\<open>xml.sax.saxutils.escape\<close> without extra entities: three replacements, in this order.\<close>

definition replace_ch :: "nat \<Rightarrow> ustr \<Rightarrow> ustr \<Rightarrow> ustr" where
  "replace_ch old new s = concat (map (\<lambda>ch. if ch = old then new else [ch]) s)"

definition xmlEscape :: "ustr \<Rightarrow> ustr" where
  "xmlEscape s =
     replace_ch 60 (u ''&lt;'') (replace_ch 62 (u ''&gt;'') (replace_ch 38 (u ''&amp;'') s))"

text \<open>\<^verbatim>\<open>if not isinstance(s,unicodeT): s = s.decode('utf8')\<close>\<close>

definition to_unicode :: "pyval \<Rightarrow> pyerr + pyval" where
  "to_unicode s = (if \<not> is_text s then py_decode s else Inr s)"

fun uStdConv :: "pyval \<Rightarrow> pyerr + pyval" where
  "uStdConv PNone = Inr (PStr Plain [])"
| "uStdConv (PObj r) = (case r of Inl e \<Rightarrow> Inl e | Inr s \<Rightarrow> to_unicode s)"
| "uStdConv s = to_unicode s"

definition bStdConv :: "pyval \<Rightarrow> pyerr + pyval" where
  "bStdConv s = (case uStdConv s of Inl e \<Rightarrow> Inl e | Inr t \<Rightarrow> py_encode t)"

text \<open>
  The part of \<^verbatim>\<open>uStdQuote\<close> after the conversion of a non-string: a
  \<^verbatim>\<open>SafeString\<close> is decoded and returned, a \<^verbatim>\<open>SafeUnicode\<close> is returned as it is,
  anything else is decoded when it is not text and then escaped.
\<close>

fun text_of :: "pyval \<Rightarrow> pyerr + ustr" where
  "text_of (PStr _ t) = Inr t"
| "text_of (PBytes _ b) = utf8_decode b"
| "text_of _ = Inl AttributeError"

fun quote_tail :: "pyval \<Rightarrow> pyerr + pyval" where
  "quote_tail (PBytes True b) = py_decode (PBytes True b)"
| "quote_tail (PStr SafeU t) = Inr (PStr SafeU t)"
| "quote_tail s =
     (case text_of s of Inl e \<Rightarrow> Inl e | Inr t \<Rightarrow> Inr (PStr Plain (xmlEscape t)))"

fun uStdQuote :: "pyval \<Rightarrow> pyerr + pyval" where
  "uStdQuote PNone = Inr (PStr Plain [])"
| "uStdQuote (PObj r) = (case r of Inl e \<Rightarrow> Inl e | Inr s \<Rightarrow> quote_tail s)"
| "uStdQuote s = quote_tail s"

definition bStdQuote :: "pyval \<Rightarrow> pyerr + pyval" where
  "bStdQuote s = (case uStdQuote s of Inl e \<Rightarrow> Inl e | Inr t \<Rightarrow> py_encode t)"

text \<open>
  The constructors \<^verbatim>\<open>SafeString(v)\<close> and \<^verbatim>\<open>SafeUnicode(v)\<close> for a text or bytes
  argument: either gives a \<^verbatim>\<open>SafeUnicode\<close> for text and a \<^verbatim>\<open>SafeString\<close> for bytes.
\<close>

fun SafeString :: "pyval \<Rightarrow> pyval option" where
  "SafeString (PStr _ t) = Some (PStr SafeU t)"
| "SafeString (PBytes _ b) = Some (PBytes True b)"
| "SafeString _ = None"

definition SafeUnicode :: "pyval \<Rightarrow> pyval option" where
  "SafeUnicode v = SafeString v"

section \<open>Quote resolution\<close>

text \<open>
  The builtins \<^verbatim>\<open>str(v)\<close> and \<^verbatim>\<open>bytes(v)\<close>, which \<^verbatim>\<open>__get_conv__\<close> hands out as the
  default literal conversions. \<^verbatim>\<open>str\<close> of a bytes object is its \<^verbatim>\<open>repr\<close>; \<^verbatim>\<open>str\<close> of an
  object is what its \<^verbatim>\<open>__str__\<close> returns, which must be a string and is handed on as
  it is, of whatever string class. For
  \<^verbatim>\<open>bytes(v)\<close> an object \<open>PObj r\<close> is taken to offer none of \<^verbatim>\<open>__bytes__\<close>,
  \<^verbatim>\<open>__index__\<close>, the buffer protocol or iteration.
\<close>

definition hexdigit :: "nat \<Rightarrow> nat" where
  "hexdigit d = (if d < 10 then 48 + d else 87 + d)"

definition byte_repr :: "nat \<Rightarrow> nat \<Rightarrow> ustr" where
  "byte_repr q b =
     (if b = q \<or> b = 92 then [92, b]
      else if b = 9 then [92, 116]
      else if b = 10 then [92, 110]
      else if b = 13 then [92, 114]
      else if b < 32 \<or> 127 \<le> b then [92, 120, hexdigit (b div 16), hexdigit (b mod 16)]
      else [b])"

definition bytes_repr :: "bstr \<Rightarrow> ustr" where
  "bytes_repr b =
     (let q = (if 39 \<in> set b \<and> 34 \<notin> set b then 34 else 39)
      in [98, q] @ concat (map (byte_repr q) b) @ [q])"

fun py_str :: "pyval \<Rightarrow> pyerr + pyval" where
  "py_str (PStr _ t) = Inr (PStr Plain t)"
| "py_str (PBytes _ b) = Inr (PStr Plain (bytes_repr b))"
| "py_str PNone = Inr (PStr Plain (u ''None''))"
| "py_str (PObj r) =
     (case r of
        Inl e \<Rightarrow> Inl e
      | Inr (PStr k t) \<Rightarrow> Inr (PStr k t)
      | Inr _ \<Rightarrow> Inl TypeError)"

fun py_bytes :: "pyval \<Rightarrow> pyerr + pyval" where
  "py_bytes (PBytes _ b) = Inr (PBytes False b)"
| "py_bytes _ = Inl TypeError"

text \<open>
  The functions that can stand as a quote function: one supplied by the caller (any
  function from a value to a value or an exception), or one of those \<^verbatim>\<open>__get_conv__\<close>
  itself hands out.
\<close>

datatype conv =
    User "pyval \<Rightarrow> pyerr + pyval"
  | AsUtf8
  | AsUnicode
  | BStdConv
  | UStdConv
  | BytesT
  | UnicodeT

fun apply_conv :: "conv \<Rightarrow> pyval \<Rightarrow> pyerr + pyval" where
  "apply_conv (User f) v = f v"
| "apply_conv AsUtf8 v = asUtf8 v"
| "apply_conv AsUnicode v = asUnicode v"
| "apply_conv BStdConv v = bStdConv v"
| "apply_conv UStdConv v = uStdConv v"
| "apply_conv BytesT v = py_bytes v"
| "apply_conv UnicodeT v = py_str v"

text \<open>
  \<^verbatim>\<open>__get_conv__(qf,lqf,b)\<close>. An argument that is \<^verbatim>\<open>None\<close> (or otherwise false) is
  \<open>None\<close> here. The supplied function is called on the empty text \<^verbatim>\<open>''\<close>; what it
  raises there propagates.
\<close>

definition get_conv :: "conv option \<Rightarrow> conv option \<Rightarrow> bool \<Rightarrow> pyerr + (conv \<times> conv)" where
  "get_conv qf lqf b =
     (case (qf, lqf) of
        (Some q, None) \<Rightarrow>
          (case apply_conv q (PStr Plain []) of
             Inl e \<Rightarrow> Inl e
           | Inr r \<Rightarrow> Inr (q, if is_bytes r then AsUtf8 else AsUnicode))
      | (None, Some l) \<Rightarrow>
          (case apply_conv l (PStr Plain []) of
             Inl e \<Rightarrow> Inl e
           | Inr r \<Rightarrow> Inr (if is_bytes r then BStdConv else UStdConv, l))
      | (None, None) \<Rightarrow> Inr (if b then (BStdConv, BytesT) else (UStdConv, UnicodeT))
      | (Some q, Some l) \<Rightarrow> Inr (q, l))"

section \<open>The run procedure of a plain template\<close>

text \<open>
  What \<^verbatim>\<open>run\<close> of \<^verbatim>\<open>_preamble\<close> does around the compiled body. The body \<^verbatim>\<open>__code__\<close> is
  arbitrary Python; what the model keeps of one execution of it is the sequence of
  calls it makes to its two writers: \<open>Lit s\<close> for \<^verbatim>\<open>__write__(s)\<close> of a literal,
  \<open>Expr v\<close> for \<^verbatim>\<open>__swrite__(v)\<close> of an expression value, and \<open>Dnl\<close>, \<open>Dws\<close> for
  \<^verbatim>\<open>__swrite__(__wss__.dnl())\<close> and \<^verbatim>\<open>__swrite__(__wss__.dws())\<close>, as the tags
  \<^verbatim>\<open>{{.dnl}}\<close> and \<^verbatim>\<open>{{.dws}}\<close> compile to.

  The world records every chunk handed to a sink, in order, and what \<^verbatim>\<open>sys.stdout\<close>
  is bound to.
\<close>

datatype sink = Callback | OutputFile | RealStdout

datatype stdout_binding = Original | SwriteDummy

record world =
  written :: "(sink \<times> pyval) list"
  sys_stdout :: stdout_binding

datatype item = Lit pyval | Expr pyval | Dnl | Dws

record writers =
  w_sink :: sink
  w_qFunc :: conv
  w_lconv :: conv

text \<open>
  \<^verbatim>\<open>__swrite__ = lambda x: __write__(qFunc(__wss__.x(x)))\<close>. A writer returns the
  exception it raised, if any, and the controller and the world as it leaves them.
\<close>

type_synonym rstate = "wsscontroller \<times> world"

definition swrite :: "writers \<Rightarrow> pyval \<Rightarrow> rstate \<Rightarrow> pyerr option \<times> rstate" where
  "swrite W v st =
     (case st of (wss, wo) \<Rightarrow>
        (case x wss v of (v', wss') \<Rightarrow>
           (case apply_conv (w_qFunc W) v' of
              Inl e \<Rightarrow> (Some e, (wss', wo))
            | Inr chunk \<Rightarrow>
                (None, (wss', wo\<lparr>written := written wo @ [(w_sink W, chunk)]\<rparr>)))))"

text \<open>\<^verbatim>\<open>__lwrite__ = lambda x: __write__(lconv(__wss__.c(x)))\<close>\<close>

definition lwrite :: "writers \<Rightarrow> pyval \<Rightarrow> rstate \<Rightarrow> pyerr option \<times> rstate" where
  "lwrite W v st =
     (case st of (wss, wo) \<Rightarrow>
        (case c wss v of
           (Inl e, wss') \<Rightarrow> (Some e, (wss', wo))
         | (Inr v', wss') \<Rightarrow>
             (case apply_conv (w_lconv W) v' of
                Inl e \<Rightarrow> (Some e, (wss', wo))
              | Inr chunk \<Rightarrow>
                  (None, (wss', wo\<lparr>written := written wo @ [(w_sink W, chunk)]\<rparr>)))))"

fun exec_item :: "writers \<Rightarrow> item \<Rightarrow> rstate \<Rightarrow> pyerr option \<times> rstate" where
  "exec_item W (Lit s) st = lwrite W s st"
| "exec_item W (Expr v) st = swrite W v st"
| "exec_item W Dnl st = (case dnl (fst st) of (v, wss') \<Rightarrow> swrite W v (wss', snd st))"
| "exec_item W Dws st = (case dws (fst st) of (v, wss') \<Rightarrow> swrite W v (wss', snd st))"

fun exec_items :: "writers \<Rightarrow> item list \<Rightarrow> rstate \<Rightarrow> pyerr option \<times> rstate" where
  "exec_items W [] st = (None, st)"
| "exec_items W (i # is) st =
     (case exec_item W i st of
        (Some e, st') \<Rightarrow> (Some e, st')
      | (None, st') \<Rightarrow> exec_items W is st')"

text \<open>
  \<^verbatim>\<open>run(dictionary, __write__, quoteFunc, outputfile, lquoteFunc)\<close>. \<open>ovr\<close> is the truth
  value of \<^verbatim>\<open>__preppyOverrideStdout__\<close> as the prologue computes it from the dictionary
  and the environment, \<open>isbytes\<close> the \<^verbatim>\<open>__isbytes__\<close> compiled into the preamble,
  \<open>wr\<close> says whether a (true) \<^verbatim>\<open>__write__\<close> was passed, \<open>outputfile\<close> whether an
  \<^verbatim>\<open>outputfile\<close> other than \<^verbatim>\<open>None\<close> was passed (a sink object is taken to be true).
  \<open>run_try\<close> is the \<^verbatim>\<open>try\<close> block; the \<^verbatim>\<open>finally\<close> clause restores \<^verbatim>\<open>sys.stdout\<close> on
  every way out of it. The message of the \<^verbatim>\<open>ValueError\<close> is kept without the two
  \<^verbatim>\<open>%r\<close> fields that show the sink objects.
\<close>

definition run_try ::
  "bool \<Rightarrow> bool \<Rightarrow> item list \<Rightarrow> bool \<Rightarrow> conv option \<Rightarrow> bool \<Rightarrow> conv option \<Rightarrow>
   world \<Rightarrow> pyerr option \<times> world" where
  "run_try ovr isbytes body wr quoteFunc outputfile lquoteFunc wo =
     (case get_conv quoteFunc lquoteFunc isbytes of
        Inl e \<Rightarrow> (Some e, wo)
      | Inr (qFunc, lconv) \<Rightarrow>
          if wr \<and> outputfile then
            (Some (ValueError ''do not define both outputfile and __write__.''), wo)
          else
            (let W = \<lparr>w_sink = (if wr then Callback
                                 else if outputfile then OutputFile else RealStdout),
                      w_qFunc = qFunc, w_lconv = lconv\<rparr>;
                 wo1 = (if ovr then wo\<lparr>sys_stdout := SwriteDummy\<rparr> else wo)
             in case exec_items W body (wss_init, wo1) of (r, (_, wo2)) \<Rightarrow> (r, wo2)))"

definition run ::
  "bool \<Rightarrow> bool \<Rightarrow> item list \<Rightarrow> bool \<Rightarrow> conv option \<Rightarrow> bool \<Rightarrow> conv option \<Rightarrow>
   world \<Rightarrow> pyerr option \<times> world" where
  "run ovr isbytes body wr quoteFunc outputfile lquoteFunc wo =
     (let saved = sys_stdout wo in
      case run_try ovr isbytes body wr quoteFunc outputfile lquoteFunc wo of
        (r, wo') \<Rightarrow> (r, if ovr then wo'\<lparr>sys_stdout := saved\<rparr> else wo'))"

section \<open>The lexer\<close>

text \<open>
  What \<^verbatim>\<open>\s\<close> matches in a \<^verbatim>\<open>str\<close> pattern and what \<^verbatim>\<open>str.strip()\<close> removes: the code
  points for which \<^verbatim>\<open>str.isspace\<close> holds.
\<close>

definition is_space :: "nat \<Rightarrow> bool" where
  "is_space ch = (ch \<in> set [9, 10, 11, 12, 13, 28, 29, 30, 31, 32, 133, 160, 5760,
      8192, 8193, 8194, 8195, 8196, 8197, 8198, 8199, 8200, 8201, 8202,
      8232, 8233, 8239, 8287, 12288])"

definition strip :: "ustr \<Rightarrow> ustr" where
  "strip s = rev (dropWhile is_space (rev (dropWhile is_space s)))"

fun starts_with :: "ustr \<Rightarrow> ustr \<Rightarrow> bool" where
  "starts_with [] t = True"
| "starts_with (a # as) [] = False"
| "starts_with (a # as) (b # bs) = (a = b \<and> starts_with as bs)"

text \<open>\<^verbatim>\<open>text[i:j]\<close> for \<open>0 \<le> i\<close>, \<open>0 \<le> j\<close>.\<close>

definition slice :: "ustr \<Rightarrow> nat \<Rightarrow> nat \<Rightarrow> ustr" where
  "slice t i j = take (j - i) (drop i t)"

subsection \<open>The delimiter pattern\<close>

text \<open>
  \<^verbatim>\<open>_pat.finditer(text)\<close> for \<^verbatim>\<open>_pat = '{{\s*|}}'\<close>: the matches from left to right, each as
  (is it an opening delimiter, start, end). \<open>scan p t\<close> scans the suffix \<open>t\<close> that
  starts at offset \<open>p\<close>. An opening match takes the white space after the braces.
\<close>

function scan :: "nat \<Rightarrow> ustr \<Rightarrow> (bool \<times> nat \<times> nat) list" where
  "scan p [] = []"
| "scan p [a] = []"
| "scan p (a # b # r) =
     (if a = 123 \<and> b = 123 then
        (let k = length (takeWhile is_space r)
         in (True, p, p + 2 + k) # scan (p + 2 + k) (dropWhile is_space r))
      else if a = 125 \<and> b = 125 then (False, p, p + 2) # scan (p + 2) r
      else scan (p + 1) (b # r))"
  by pat_completeness auto
termination
  by (relation "measure (\<lambda>(p, t). length t)")
     (auto simp: length_dropWhile_le less_Suc_eq_le le_SucI)

subsection \<open>The directive pattern \<^verbatim>\<open>_s\<close>\<close>

definition start_keywords :: "ustr list" where
  "start_keywords = map u [''while'', ''if'', ''elif'', ''for'', ''continue'', ''break'',
     ''try'', ''except'', ''raise'', ''with'', ''import'', ''from'', ''assert'', ''return'',
     ''match'', ''case'']"

definition end_keywords :: "ustr list" where
  "end_keywords = map u [''else'', ''script'', ''eval'', ''endwhile'', ''endif'',
     ''endscript'', ''endeval'', ''endfor'', ''finally'', ''endtry'', ''endwith'', ''enddef'',
     ''endmatch'']"

text \<open>
  The groups of a match of \<^verbatim>\<open>_s\<close> at the start of a tag's text, by alternative:
  \<open>MStart start startend\<close>, \<open>MTdef\<close> (both groups are nonempty when this alternative
  matches), \<open>MDef def defend\<close>, \<open>MEnd end endend\<close> with \<open>endend\<close> absent when the
  branch \<^verbatim>\<open>\s*$\<close> matched.
\<close>

datatype smatch =
    MStart ustr ustr
  | MTdef
  | MDef ustr ustr
  | MEnd ustr "ustr option"

text \<open>
  \<^verbatim>\<open>\s*$\<close> at the start of \<open>t\<close>, under \<^verbatim>\<open>re.M\<close>: some run of white space from the start of
  \<open>t\<close> ends at the end of \<open>t\<close> or in front of a line feed. The line feed is white space
  itself, so this holds when \<open>t\<close> is all white space or its leading white space
  contains a line feed.
\<close>

definition ws_eol :: "ustr \<Rightarrow> bool" where
  "ws_eol t = (dropWhile is_space t = [] \<or> 10 \<in> set (takeWhile is_space t))"

text \<open>
  First alternative: a keyword, then \<^verbatim>\<open>\s+\<close> or \<^verbatim>\<open>$\<close>. In front of a line feed \<^verbatim>\<open>\s+\<close>
  matches first, so the empty \<open>startend\<close> is left for the end of the text.
\<close>

fun match_start :: "ustr list \<Rightarrow> ustr \<Rightarrow> smatch option" where
  "match_start [] t = None"
| "match_start (k # ks) t =
     (if starts_with k t then
        (case drop (length k) t of
           [] \<Rightarrow> Some (MStart k [])
         | ch # r \<Rightarrow>
             if is_space ch then Some (MStart k (takeWhile is_space (ch # r)))
             else match_start ks t)
      else match_start ks t)"

text \<open>
  Second alternative, \<^verbatim>\<open>def\s*[_a-zA-Z]\<close> then \<^verbatim>\<open>\w*\s*\(.*\)\s*$\<close> under \<^verbatim>\<open>re.DOTALL\<close>: after
  the name and an opening parenthesis, some closing parenthesis is followed by
  \<^verbatim>\<open>\s*$\<close>. \<open>uw\<close> is \<^verbatim>\<open>str.isalnum\<close> on the code points from 128 on, which the
  embedding takes as a parameter (no white space code point is alphanumeric).
\<close>

definition is_ident_start :: "nat \<Rightarrow> bool" where
  "is_ident_start ch = (ch = 95 \<or> (65 \<le> ch \<and> ch \<le> 90) \<or> (97 \<le> ch \<and> ch \<le> 122))"

definition is_word :: "(nat \<Rightarrow> bool) \<Rightarrow> nat \<Rightarrow> bool" where
  "is_word uw ch =
     (if ch < 128 then is_ident_start ch \<or> (48 \<le> ch \<and> ch \<le> 57) else uw ch)"

fun close_paren_eol :: "ustr \<Rightarrow> bool" where
  "close_paren_eol [] = False"
| "close_paren_eol (ch # r) = ((ch = 41 \<and> ws_eol r) \<or> close_paren_eol r)"

definition match_tdef :: "(nat \<Rightarrow> bool) \<Rightarrow> ustr \<Rightarrow> bool" where
  "match_tdef uw t =
     (starts_with (u ''def'') t \<and>
      (case dropWhile is_space (drop 3 t) of
         [] \<Rightarrow> False
       | c0 # r \<Rightarrow>
           is_ident_start c0 \<and>
           (case dropWhile is_space (dropWhile (is_word uw) r) of
              [] \<Rightarrow> False
            | ch # r' \<Rightarrow> ch = 40 \<and> close_paren_eol r')))"

text \<open>
  Third alternative, \<^verbatim>\<open>(def\s*)(\(|$)\<close>: the white space is taken greedily and given back
  until a parenthesis or \<^verbatim>\<open>$\<close> follows. With the whole run taken, what follows is the
  parenthesis, the end of the text, or neither; with less taken, what follows is a
  white space character, and \<^verbatim>\<open>$\<close> matches in front of the last line feed of the run.
\<close>

definition upto_last_nl :: "ustr \<Rightarrow> ustr" where
  "upto_last_nl wsrun = rev (drop 1 (dropWhile (\<lambda>ch. ch \<noteq> 10) (rev wsrun)))"

definition match_def :: "ustr \<Rightarrow> smatch option" where
  "match_def t =
     (if starts_with (u ''def'') t then
        (let wsrun = takeWhile is_space (drop 3 t);
             after = dropWhile is_space (drop 3 t)
         in if starts_with [40] after then Some (MDef (u ''def'' @ wsrun) [40])
            else if after = [] then Some (MDef (u ''def'' @ wsrun) [])
            else if 10 \<in> set wsrun then Some (MDef (u ''def'' @ upto_last_nl wsrun) [])
            else None)
      else None)"

text \<open>
  Fourth alternative: a keyword, then \<^verbatim>\<open>\s*$\<close> or else \<^verbatim>\<open>(?P<endend>.+$)\<close>, which under
  \<^verbatim>\<open>re.DOTALL\<close> takes the whole rest of the text.
\<close>

fun match_end :: "ustr list \<Rightarrow> ustr \<Rightarrow> smatch option" where
  "match_end [] t = None"
| "match_end (k # ks) t =
     (if starts_with k t then
        (let r = drop (length k) t
         in if ws_eol r then Some (MEnd k None) else Some (MEnd k (Some r)))
      else match_end ks t)"

text \<open>\<^verbatim>\<open>_s.match(text)\<close>: the alternatives in the order of the pattern.\<close>

definition s_match :: "(nat \<Rightarrow> bool) \<Rightarrow> ustr \<Rightarrow> smatch option" where
  "s_match uw t =
     (case match_start start_keywords t of
        Some m \<Rightarrow> Some m
      | None \<Rightarrow>
          if match_tdef uw t then Some MTdef
          else (case match_def t of
                  Some m \<Rightarrow> Some m
                | None \<Rightarrow> match_end end_keywords t))"

subsection \<open>\<^verbatim>\<open>PreppyParser.__tokenize\<close>\<close>

record Token =
  kind :: ustr
  start :: nat
  stop :: nat

definition lexerror :: "ustr \<Rightarrow> nat \<Rightarrow> pyerr + 'a" where
  "lexerror msg pos = Inl (SyntaxError msg pos)"

text \<open>
  The classification of a finished tag with text \<open>txt\<close>, closing at offset \<open>i0\<close>:
  the token kind and the new \<^verbatim>\<open>_defSeen\<close>, or the lex error. The kind of a signature
  tag is the text of the group \<^verbatim>\<open>def\<close>, white space included.
\<close>

definition no_ws_needed :: "ustr list" where
  "no_ws_needed = map u [''continue'', ''break'', ''try'', ''except'', ''return'', ''raise'']"

definition classify :: "(nat \<Rightarrow> bool) \<Rightarrow> int \<Rightarrow> ustr \<Rightarrow> nat \<Rightarrow> pyerr + (ustr \<times> int)" where
  "classify uw defSeen txt i0 =
     (case s_match uw txt of
        None \<Rightarrow> Inr (u ''expr'', defSeen)
      | Some (MStart t startend) \<Rightarrow>
          if startend = [] \<and> t \<notin> set no_ws_needed then lexerror (u ''Bad '' @ t) i0
          else Inr (t, defSeen)
      | Some (MEnd t endend) \<Rightarrow>
          (case endend of
             None \<Rightarrow> Inr (t, defSeen)
           | Some ee \<Rightarrow>
               if ee \<noteq> [] \<and> t \<noteq> u ''else'' \<and> strip ee \<noteq> [58] then lexerror (u ''Bad '' @ t) i0
               else Inr (t, defSeen))
      | Some (MDef t defend) \<Rightarrow>
          if defend = [] then lexerror (u ''Bad '' @ t) i0
          else if defSeen \<noteq> 0 then
            (if defSeen > 0 then lexerror (u ''Only one def may be used'') i0
             else lexerror (u ''def must come first'') i0)
          else Inr (t, 1)
      | Some MTdef \<Rightarrow> Inr (u ''tdef'', defSeen))"

record lexer =
  state :: nat
  ix :: nat
  defSeen :: int
  tokens :: "Token list"

definition lexer_init :: lexer where
  "lexer_init = \<lparr>state = 0, ix = 0, defSeen = 0, tokens = []\<rparr>"

text \<open>One round of the loop over the delimiter matches.\<close>

definition lex_step :: "(nat \<Rightarrow> bool) \<Rightarrow> ustr \<Rightarrow> lexer \<Rightarrow> bool \<times> nat \<times> nat \<Rightarrow> pyerr + lexer" where
  "lex_step uw text L m =
     (case m of (is_open, i0, i1) \<Rightarrow>
        if is_open then
          (if state L \<noteq> 0 then lexerror (u ''Unexpected {{'') i0
           else Inr (L\<lparr>state := 1,
                       tokens := (if i0 \<noteq> ix L
                                  then tokens L @ [\<lparr>kind = u ''const'', start = ix L, stop = i0\<rparr>]
                                  else tokens L),
                       ix := i1\<rparr>))
        else if state L \<noteq> 0 then
          (case classify uw (defSeen L) (slice text (ix L) i0) i0 of
             Inl e \<Rightarrow> Inl e
           | Inr (t, d) \<Rightarrow>
               Inr (L\<lparr>state := 0,
                       defSeen := (if d = 0 then - 1 else d),
                       tokens := (if i0 \<noteq> ix L
                                  then tokens L @ [\<lparr>kind = t, start = ix L, stop = i0\<rparr>]
                                  else tokens L),
                       ix := i1\<rparr>))
        else Inr L)"

fun lex_loop ::
  "(nat \<Rightarrow> bool) \<Rightarrow> ustr \<Rightarrow> lexer \<Rightarrow> (bool \<times> nat \<times> nat) list \<Rightarrow> pyerr + lexer" where
  "lex_loop uw text L [] = Inr L"
| "lex_loop uw text L (m # ms) =
     (case lex_step uw text L m of Inl e \<Rightarrow> Inl e | Inr L' \<Rightarrow> lex_loop uw text L' ms)"

text \<open>After the loop: an open tag is an error; the rest of the text and \<^verbatim>\<open>eof\<close> follow.\<close>

definition lex_finish :: "ustr \<Rightarrow> lexer \<Rightarrow> pyerr + lexer" where
  "lex_finish text L =
     (if state L \<noteq> 0 then lexerror (u ''Unterminated preppy token'') (ix L)
      else
        (let textLen = length text;
             toks = (if ix L \<noteq> textLen
                     then tokens L @ [\<lparr>kind = u ''const'', start = ix L, stop = textLen\<rparr>]
                     else tokens L)
         in Inr (L\<lparr>tokens := toks @ [\<lparr>kind = u ''eof'', start = textLen, stop = textLen\<rparr>]\<rparr>)))"

definition tokenize_from :: "(nat \<Rightarrow> bool) \<Rightarrow> ustr \<Rightarrow> lexer \<Rightarrow> pyerr + lexer" where
  "tokenize_from uw text L =
     (case lex_loop uw text L (scan 0 text) of
        Inl e \<Rightarrow> Inl e
      | Inr L' \<Rightarrow> lex_finish text L')"

text \<open>
  \<^verbatim>\<open>__tokenize\<close> on a parser as \<^verbatim>\<open>__init__\<close> leaves it (\<^verbatim>\<open>_defSeen = 0\<close>): the token
  list and the final \<^verbatim>\<open>_defSeen\<close>.
\<close>

definition tokenize :: "(nat \<Rightarrow> bool) \<Rightarrow> ustr \<Rightarrow> pyerr + (Token list \<times> int)" where
  "tokenize uw text =
     (case tokenize_from uw text lexer_init of
        Inl e \<Rightarrow> Inl e
      | Inr L \<Rightarrow> Inr (tokens L, defSeen L))"

subsection \<open>Signature tokens\<close>





section \<open>The artifact cache: \<^verbatim>\<open>getModule\<close> on source text\<close>

text \<open>
  \<^verbatim>\<open>getModule\<close> as it runs when \<^verbatim>\<open>name\<close> is a string and \<^verbatim>\<open>sourcetext\<close> is supplied
  (not \<^verbatim>\<open>None\<close>); the other branch, which looks for the module and the source on
  disk, is not part of the embedding, and neither are the arguments that only that
  branch or the progress messages read (\<^verbatim>\<open>source_extension\<close>, \<^verbatim>\<open>force\<close>, \<^verbatim>\<open>verbose\<close>,
  \<^verbatim>\<open>savePy\<close>, \<^verbatim>\<open>_globals\<close>).

  What the function takes from its surroundings is a record of parameters: the MD5
  digest, the functions of \<^verbatim>\<open>os.path\<close>, what
  \<^verbatim>\<open>PreppyParser(sourcetext,sourcefilename,sourcechecksum).compile(0)\<close> raises, if
  anything, and what opening a \<^verbatim>\<open>.pyc\<close> path for writing raises, if anything.
\<close>

definition VERSION :: ustr where
  "VERSION = u ''4.3.0''"

record osenv =
  md5hex :: "bstr \<Rightarrow> ustr"
  path_split :: "ustr \<Rightarrow> ustr \<times> ustr"
  path_isabs :: "ustr \<Rightarrow> bool"
  path_absnorm :: "ustr \<Rightarrow> ustr"
  path_root :: "ustr \<Rightarrow> ustr"
  path_join :: "ustr \<Rightarrow> ustr \<Rightarrow> ustr"
  os_sep :: ustr
  compile_error :: "ustr \<Rightarrow> ustr \<Rightarrow> ustr \<Rightarrow> pyerr option"
  write_error :: "ustr \<Rightarrow> pyerr option"

text \<open>\<^verbatim>\<open>getMd5(s) = md5(asUtf8(s)+asUtf8(VERSION)).hexdigest()\<close> for a text \<open>s\<close>.\<close>

definition getMd5 :: "osenv \<Rightarrow> ustr \<Rightarrow> pyerr + ustr" where
  "getMd5 E s =
     (case utf8_encode s of
        Inl e \<Rightarrow> Inl e
      | Inr b \<Rightarrow>
          (case utf8_encode VERSION of
             Inl e \<Rightarrow> Inl e
           | Inr v \<Rightarrow> Inr (md5hex E (b @ v))))"

text \<open>
  A module object, as far as the cache is concerned: its \<^verbatim>\<open>__name__\<close> (lost when the
  dictionary of an existing module is cleared), its \<^verbatim>\<open>__file__\<close>, and what running the
  compiled code binds: \<^verbatim>\<open>__checksum__\<close>, and the code itself, which is determined by
  the source text and the file name it was compiled from.

  Module objects live in a heap and the caches hold references to them, so that two
  calls can return the same object. The events are the rebuilds and the files written.
\<close>

record pymodule =
  mod_name :: "ustr option"
  mod_file :: "ustr option"
  mod_checksum :: ustr
  mod_source :: ustr
  mod_filename :: ustr

datatype event = Compiled ustr ustr | WrotePyc ustr

record caches =
  SOURCE_MODULES :: "ustr \<rightharpoonup> nat"
  FILE_MODULES :: "ustr \<rightharpoonup> nat"
  heap :: "nat \<rightharpoonup> pymodule"
  next_id :: nat
  events :: "event list"

text \<open>
  From \<^verbatim>\<open>if _existing_module:\<close> to \<^verbatim>\<open>return module\<close>, on the path where
  \<^verbatim>\<open>nosourcefile\<close> is 1.
\<close>

definition install_module ::
  "ustr \<Rightarrow> ustr option \<Rightarrow> ustr \<Rightarrow> ustr \<Rightarrow> ustr \<Rightarrow> nat \<Rightarrow> nat option \<Rightarrow> caches \<Rightarrow> nat \<times> caches" where
  "install_module name pycPath sourcetext sourcefilename sourcechecksum importModule
       existing st =
     (let (m, nm, st1) =
            (case existing of
               Some m' \<Rightarrow> (m', None, st)
             | None \<Rightarrow> (next_id st, Some name, st\<lparr>next_id := Suc (next_id st)\<rparr>));
          obj = \<lparr>mod_name = nm,
                 mod_file = (case pycPath of
                               Some f \<Rightarrow> if f \<noteq> [] then Some f else None
                             | None \<Rightarrow> None),
                 mod_checksum = sourcechecksum,
                 mod_source = sourcetext, mod_filename = sourcefilename\<rparr>;
          st2 = st1\<lparr>heap := (heap st1)(m \<mapsto> obj)\<rparr>
      in (m, if importModule \<noteq> 0
             then st2\<lparr>SOURCE_MODULES := (SOURCE_MODULES st2)(sourcetext \<mapsto> m)\<rparr>
             else st2))"

text \<open>From \<^verbatim>\<open>P = PreppyParser(...)\<close> on: the rebuild.\<close>

definition rebuild ::
  "osenv \<Rightarrow> ustr \<Rightarrow> ustr \<Rightarrow> ustr \<Rightarrow> ustr \<Rightarrow> ustr \<Rightarrow> nat \<Rightarrow> nat \<Rightarrow> nat option \<Rightarrow> caches \<Rightarrow>
   (pyerr + nat) \<times> caches" where
  "rebuild E name dir sourcetext sourcefilename sourcechecksum savePyc importModule
       existing st =
     (case compile_error E sourcetext sourcefilename sourcechecksum of
        Some e \<Rightarrow> (Inl e, st)
      | None \<Rightarrow>
          (let st1 = st\<lparr>events := events st @ [Compiled sourcefilename sourcechecksum]\<rparr>
           in if savePyc \<noteq> 0 then
                (let pycPath = path_join E dir (name @ u ''.pyc'')
                 in case write_error E pycPath of
                      Some e \<Rightarrow> (Inl e, st1)
                    | None \<Rightarrow>
                        (case install_module name (Some pycPath) sourcetext sourcefilename
                                sourcechecksum importModule existing
                                (st1\<lparr>events := events st1 @ [WrotePyc pycPath]\<rparr>) of
                           (m, st2) \<Rightarrow> (Inr m, st2)))
              else
                (case install_module name None sourcetext sourcefilename sourcechecksum
                        importModule existing st1 of
                   (m, st2) \<Rightarrow> (Inr m, st2))))"

definition getModule ::
  "osenv \<Rightarrow> ustr \<Rightarrow> ustr \<Rightarrow> ustr \<Rightarrow> bool \<Rightarrow> nat \<Rightarrow> nat \<Rightarrow> nat option \<Rightarrow> caches \<Rightarrow>
   (pyerr + nat) \<times> caches" where
  "getModule E name directory sourcetext savefile savePyc importModule existing st =
     (case path_split E name of
        (extraDir, name1) \<Rightarrow>
          (let directory1 =
                 (if extraDir \<noteq> [] then
                    (if path_isabs E extraDir then extraDir
                     else directory @ os_sep E @ extraDir)
                  else directory);
               dir = path_absnorm E directory1;
               name2 = path_root E name1;
               savePyc1 = (if savefile \<and> savePyc = 0 then 1 else savePyc)
           in case getMd5 E sourcetext of
                Inl e \<Rightarrow> (Inl e, st)
              | Inr sourcechecksum \<Rightarrow>
                  (let name3 = (if name2 = [] then u ''_preppy_'' @ sourcechecksum else name2);
                       sourcefilename = u ''<input text '' @ name3 @ u ''>''
                   in case SOURCE_MODULES st sourcetext of
                        Some m \<Rightarrow> (Inr m, st)
                      | None \<Rightarrow>
                          rebuild E name3 dir sourcetext sourcefilename sourcechecksum
                            savePyc1 importModule existing st)))"

text \<open>
  A sample environment, for evaluating \<^verbatim>\<open>getModule\<close>: the digest is the identity, paths
  are joined with a slash, every template compiles and every file can be written. The
  caches start empty.
\<close>

definition sample_env :: osenv where
  "sample_env =
     \<lparr>md5hex = (\<lambda>b. b), path_split = (\<lambda>n. ([], n)), path_isabs = (\<lambda>n. False),
      path_absnorm = (\<lambda>n. n), path_root = (\<lambda>n. n), path_join = (\<lambda>a b. a @ [47] @ b),
      os_sep = [47], compile_error = (\<lambda>s f k. None), write_error = (\<lambda>f. None)\<rparr>"

definition empty_caches :: caches where
  "empty_caches =
     \<lparr>SOURCE_MODULES = Map.empty, FILE_MODULES = Map.empty, heap = Map.empty,
      next_id = 0, events = []\<rparr>"

section \<open>The parser\<close>

text \<open>
  A call returns a value, raises, or, in the embedding, runs out of the fuel that
  bounds its recursion.
\<close>

datatype 'a res = Ok 'a | Raise pyerr | OutOfFuel

definition rbind :: "'a res \<Rightarrow> ('a \<Rightarrow> 'b res) \<Rightarrow> 'b res" where
  "rbind m f = (case m of Ok v \<Rightarrow> f v | Raise e \<Rightarrow> Raise e | OutOfFuel \<Rightarrow> OutOfFuel)"

subsection \<open>Text helpers\<close>

text \<open>\<^verbatim>\<open>s.replace(old, new)\<close> for a nonempty \<open>old\<close>; \<open>k\<close> counts characters still to skip.\<close>

fun replace_from :: "ustr \<Rightarrow> ustr \<Rightarrow> nat \<Rightarrow> ustr \<Rightarrow> ustr" where
  "replace_from old new k [] = []"
| "replace_from old new (Suc k) (a # s) = replace_from old new k s"
| "replace_from old new 0 (a # s) =
     (if starts_with old (a # s) then new @ replace_from old new (length old - 1) s
      else a # replace_from old new 0 s)"

definition replace :: "ustr \<Rightarrow> ustr \<Rightarrow> ustr \<Rightarrow> ustr" where
  "replace old new s = replace_from old new 0 s"

text \<open>\<^verbatim>\<open>unescape\<close> with \<^verbatim>\<open>UNESCAPES\<close>.\<close>

definition unescape :: "ustr \<Rightarrow> ustr" where
  "unescape s =
     replace (u ''$$'') (u ''$'') (replace (u ''}$}'') (u ''}}'') (replace (u ''{${'') (u ''{{'') s))"

fun split_nl :: "ustr \<Rightarrow> ustr list" where
  "split_nl [] = [ [] ]"
| "split_nl (ch # r) =
     (if ch = 10 then [] # split_nl r
      else (case split_nl r of l # ls \<Rightarrow> (ch # l) # ls | [] \<Rightarrow> [ [ch] ]))"

fun join_nl :: "ustr list \<Rightarrow> ustr" where
  "join_nl [] = []"
| "join_nl [l] = l"
| "join_nl (l # ls) = l @ [10] @ join_nl ls"

text \<open>
  \<^verbatim>\<open>dedent\<close>. A line is skipped when it is empty after stripping or starts with \<^verbatim>\<open>#\<close>.
  \<^verbatim>\<open>findfirstword\<close> is where the first word of the first kept line is found in it, which
  is the length of the line's leading white space.
\<close>

definition is_blank :: "ustr \<Rightarrow> bool" where
  "is_blank l = (case strip l of [] \<Rightarrow> True | h # _ \<Rightarrow> h = 35)"

fun dedent_lines :: "nat \<Rightarrow> ustr \<Rightarrow> ustr list \<Rightarrow> ustr list res" where
  "dedent_lines ffw indent [] = Ok []"
| "dedent_lines ffw indent (l # ls) =
     (if is_blank l then rbind (dedent_lines ffw indent ls) (\<lambda>r. Ok ([] # r))
      else if take ffw l \<noteq> indent then Raise (ValueError ''inconsistent indent'')
      else rbind (dedent_lines ffw indent ls) (\<lambda>r. Ok (drop ffw l # r)))"

definition dedent :: "ustr \<Rightarrow> (nat \<times> ustr) res" where
  "dedent txt =
     (let lines = split_nl txt;
          lempty = length (takeWhile is_blank lines)
      in case dropWhile is_blank lines of
           [] \<Rightarrow> Ok (0, [])
         | line0 # rest \<Rightarrow>
             (let findfirstword = length (takeWhile is_space line0);
                  indent = take findfirstword line0
              in rbind (dedent_lines findfirstword indent (line0 # rest))
                   (\<lambda>linesout. Ok (length indent, join_nl (replicate lempty [] @ linesout)))))"

subsection \<open>The grammar of the embedded language\<close>

text \<open>
  \<^verbatim>\<open>ast.parse(text, mode='exec').body\<close> is a parameter of the embedding: for a text it
  gives the list of statements or the exception. Of a statement the parser reads
  whether it has a \<^verbatim>\<open>value\<close> attribute and how many \<^verbatim>\<open>handlers\<close> and \<^verbatim>\<open>cases\<close> it has
  (\<open>None\<close>: no such attribute).
\<close>

record pystmt =
  st_text :: ustr
  has_value :: bool
  st_handlers :: "nat option"
  st_cases :: "nat option"

type_synonym pygrammar = "ustr \<Rightarrow> pyerr + pystmt list"

text \<open>
  The statement tree, without the line and column numbers that \<^verbatim>\<open>__renumber\<close> and
  \<^verbatim>\<open>_transfer_end_attributes\<close> write into it. A node has a label and lists of children:
  body and else-body for a statement with a body, body, handlers, else-body and
  final body for \<^verbatim>\<open>try\<close>.
\<close>

datatype label =
    LWrite ustr
  | LSwrite pystmt
  | LPy pystmt
  | LEval "pystmt list"
  | LBreak
  | LContinue
  | LPass
  | LReturnEmpty
  | LTry
  | LHandler pystmt
  | LCase pystmt

datatype tree = Tree label "tree list list"

subsection \<open>The state of the parser\<close>

record parser =
  source :: ustr
  p_tokens :: "Token list"
  tokenX :: nat
  inFor :: int
  inWhile :: int
  inMatch :: int
  inCase :: int
  inTdef :: "(int \<times> int) list"
  fnc_defn :: "(Token \<times> pystmt) option"

text \<open>\<^verbatim>\<open>self._tokens[self._tokenX]\<close> and \<^verbatim>\<open>self._tokens[self._tokenX-1]\<close>\<close>

definition tok :: "parser \<Rightarrow> Token res" where
  "tok st =
     (if tokenX st < length (p_tokens st) then Ok (p_tokens st ! tokenX st)
      else Raise IndexError)"

definition prev_tok :: "parser \<Rightarrow> Token res" where
  "prev_tok st =
     (if p_tokens st = [] then Raise IndexError
      else if tokenX st = 0 then Ok (last (p_tokens st))
      else if tokenX st - 1 < length (p_tokens st) then Ok (p_tokens st ! (tokenX st - 1))
      else Raise IndexError)"

definition tokenPop :: "parser \<Rightarrow> (Token \<times> parser) res" where
  "tokenPop st = rbind (tok st) (\<lambda>t. Ok (t, st\<lparr>tokenX := tokenX st + 1\<rparr>))"

text \<open>
  \<^verbatim>\<open>__serror\<close> and \<^verbatim>\<open>__error\<close>: both read the start of the current token and raise a
  \<^verbatim>\<open>SyntaxError\<close> there; \<^verbatim>\<open>__error\<close> puts the exception being handled into the text.
\<close>

definition serror :: "ustr \<Rightarrow> parser \<Rightarrow> 'a res" where
  "serror msg st = rbind (tok st) (\<lambda>t. Raise (SyntaxError msg (start t)))"

definition error_at :: "ustr \<Rightarrow> parser \<Rightarrow> 'a res" where
  "error_at msg st = rbind (tok st) (\<lambda>t. Raise (SyntaxError msg (start t)))"

text \<open>\<^verbatim>\<open>try: ... except: self.__error(msg)\<close>\<close>

definition guard :: "'a res \<Rightarrow> ustr \<Rightarrow> parser \<Rightarrow> 'a res" where
  "guard m msg st = (case m of Ok v \<Rightarrow> Ok v | Raise e \<Rightarrow> error_at msg st | OutOfFuel \<Rightarrow> OutOfFuel)"

definition ends_with :: "ustr \<Rightarrow> ustr \<Rightarrow> bool" where
  "ends_with suf t = starts_with (rev suf) (rev t)"

definition tokenText :: "bool \<Rightarrow> bool \<Rightarrow> nat \<Rightarrow> parser \<Rightarrow> ustr res" where
  "tokenText colonRemove strp forceColonPass st =
     rbind (tok st) (\<lambda>t.
       (let text0 = slice (source st) (start t) (stop t);
            text1 = (if strp then strip text0 else text0);
            text2 =
              (if colonRemove \<or> forceColonPass \<noteq> 0 then
                 (let text3 = (if ends_with [58] text1 then butlast text1 else text1)
                  in if forceColonPass = 3 then
                       u ''match None:'' @ [10, 9] @ text3 @ [58, 10, 9, 9] @ u ''pass''
                     else if forceColonPass = 2 then
                       text3 @ [58, 10, 9] @ u ''case _:'' @ [10, 9, 9] @ u ''pass'' @ [10]
                     else if forceColonPass \<noteq> 0 then text3 @ [58, 9] @ u ''pass'' @ [10]
                     else text3)
               else text1)
        in Ok (unescape text2)))"

definition is_SyntaxError :: "pyerr \<Rightarrow> bool" where
  "is_SyntaxError e = (case e of SyntaxError _ _ \<Rightarrow> True | _ \<Rightarrow> False)"

definition rparse :: "pygrammar \<Rightarrow> ustr \<Rightarrow> pystmt list res" where
  "rparse P txt =
     (case P txt of
        Inr tf \<Rightarrow> Ok tf
      | Inl e \<Rightarrow>
          if is_SyntaxError e \<and> strip txt \<in> set [u ''.dnl'', u ''.dws''] then
            (case P (u ''__wss__'' @ strip txt @ u ''()'') of
               Inr tf \<Rightarrow> Ok tf
             | Inl e' \<Rightarrow> Raise e')
          else Raise e)"

definition iparse :: "pygrammar \<Rightarrow> ustr \<Rightarrow> pystmt res" where
  "iparse P txt =
     rbind (rparse P txt) (\<lambda>tf. case tf of [] \<Rightarrow> Raise IndexError | n # _ \<Rightarrow> Ok n)"

subsection \<open>The handlers\<close>

text \<open>
  A handler returns the nodes it adds to the enclosing list (a list, one node, or none
  for \<^verbatim>\<open>None\<close>) and the parser as it leaves it. The handlers that parse a body take
  \<^verbatim>\<open>__preppy\<close> as the argument \<open>pp\<close>, called with the followers, \<^verbatim>\<open>pop\<close> and
  \<^verbatim>\<open>fixEmpty\<close>.
\<close>

type_synonym parsed = "(tree list \<times> parser) res"
type_synonym preppy_fn = "ustr list \<Rightarrow> bool \<Rightarrow> bool \<Rightarrow> parser \<Rightarrow> parsed"

definition raw_nodes :: "pystmt list \<Rightarrow> tree list" where
  "raw_nodes tf = map (\<lambda>n. Tree (LPy n) []) tf"

definition const_h :: "parser \<Rightarrow> parsed" where
  "const_h st =
     rbind (guard (tokenText False False 0 st) (u ''bad constant'') st) (\<lambda>txt.
     rbind (tokenPop st) (\<lambda>(t, st1).
     Ok ([Tree (LWrite txt) []], st1)))"

definition expr_h :: "pygrammar \<Rightarrow> parser \<Rightarrow> parsed" where
  "expr_h P st =
     rbind (tokenText False True 0 st) (\<lambda>txt.
     rbind (guard (rbind (iparse P txt)
                     (\<lambda>n. if has_value n then Ok n else Raise AttributeError))
              (u ''bad expression'') st) (\<lambda>n.
     rbind (tokenPop st) (\<lambda>(t, st1).
     Ok ([Tree (LSwrite n) []], st1))))"

definition def_h :: "pygrammar \<Rightarrow> parser \<Rightarrow> parsed" where
  "def_h P st =
     rbind (guard (rbind (tokenText False True 1 st)
                     (\<lambda>txt. iparse P (u ''def get'' @ drop 3 (strip txt))))
              (u ''invalid syntax'') st) (\<lambda>n.
     rbind (tokenPop st) (\<lambda>(t, st1).
     Ok ([], st1\<lparr>fnc_defn := Some (t, n)\<rparr>)))"

definition return_h :: "pygrammar \<Rightarrow> parser \<Rightarrow> parsed" where
  "return_h P st =
     (if inTdef st = [] then
        serror (u ''return statement outside while or for loop'') st
      else
        rbind (tokenText False True 0 st) (\<lambda>txt.
        rbind (guard (rparse P txt) (u ''invalid syntax'') st) (\<lambda>n.
        rbind (tokenPop st) (\<lambda>(t, st1).
        Ok (raw_nodes n, st1)))))"

definition break_h :: "ustr \<Rightarrow> parser \<Rightarrow> parsed" where
  "break_h stmt st =
     rbind (tokenText False True 0 st) (\<lambda>txt.
     if txt \<noteq> stmt then serror (u ''invalid '' @ stmt @ u '' statement'') st
     else if inWhile st = 0 \<and> inFor st = 0 then
       serror (stmt @ u '' statement outside while or for loop'') st
     else
       rbind (tokenPop st) (\<lambda>(t, st1).
       Ok ([Tree (if stmt = u ''break'' then LBreak else LContinue) []], st1)))"

definition raise_h :: "pygrammar \<Rightarrow> parser \<Rightarrow> parsed" where
  "raise_h P st =
     rbind (tokenText False True 0 st) (\<lambda>txt.
     rbind (guard (rparse P txt) (u ''invalid syntax'') st) (\<lambda>n.
     rbind (tokenPop st) (\<lambda>(t, st1).
     Ok (raw_nodes n, st1))))"

definition import_h :: "pygrammar \<Rightarrow> parser \<Rightarrow> parsed" where
  "import_h P st =
     rbind (tokenText False True 0 st) (\<lambda>txt.
     rbind (guard (iparse P txt) (u ''invalid syntax'') st) (\<lambda>n.
     rbind (tokenPop st) (\<lambda>(t, st1).
     Ok ([Tree (LPy n) []], st1))))"

text \<open>\<^verbatim>\<open>__script\<close>, with \<open>mode\<close> one of \<^verbatim>\<open>script\<close> and \<^verbatim>\<open>eval\<close>.\<close>

definition script_h :: "pygrammar \<Rightarrow> ustr \<Rightarrow> parser \<Rightarrow> parsed" where
  "script_h P mode st =
     (let endk = u ''end'' @ mode in
      rbind (tokenPop st) (\<lambda>(t0, st1).
      rbind (tok st1) (\<lambda>t1.
      if kind t1 = endk then rbind (tokenPop st1) (\<lambda>(t, st2). Ok ([], st2))
      else
        rbind (tokenText False False 0 st1) (\<lambda>raw.
        rbind (dedent raw) (\<lambda>(dcoffs, txt).
        rbind (if txt \<noteq> [] then
                 guard (rbind (rparse P txt) (\<lambda>n. Ok (Some n))) (u ''invalid syntax'') st1
               else Ok None) (\<lambda>n.
        rbind (tokenPop st1) (\<lambda>(t, st2).
        rbind (guard (rbind (tok st2)
                        (\<lambda>t2. if kind t2 = endk then tokenPop st2 else Raise AssertionError))
                 (endk @ u '' expected'') st2) (\<lambda>(t3, st3).
        (case n of
           None \<Rightarrow> Ok ([], st3)
         | Some tf \<Rightarrow>
             Ok (if mode = u ''eval'' then [Tree (LEval tf) []] else raw_nodes tf, st3))))))))))"

text \<open>\<^verbatim>\<open>__while\<close> and \<^verbatim>\<open>__for\<close>, which differ in the counter and the closing keyword.\<close>

definition while_h :: "preppy_fn \<Rightarrow> pygrammar \<Rightarrow> parser \<Rightarrow> parsed" where
  "while_h pp P st =
     (let st0 = st\<lparr>inWhile := inWhile st + 1\<rparr> in
      rbind (guard (rbind (tokenText False True 1 st0) (iparse P))
               (u ''invalid syntax'') st0) (\<lambda>n.
      rbind (tokenPop st0) (\<lambda>(t, st1).
      rbind (pp [u ''endwhile'', u ''else''] True True st1) (\<lambda>(body, st2).
      rbind (prev_tok st2) (\<lambda>pt.
      if kind pt = u ''else'' then
        rbind (pp [u ''endwhile''] True False st2) (\<lambda>(orelse, st3).
        Ok ([Tree (LPy n) [body, orelse]], st3\<lparr>inWhile := inWhile st3 - 1\<rparr>))
      else Ok ([Tree (LPy n) [body, []]], st2\<lparr>inWhile := inWhile st2 - 1\<rparr>))))))"

definition for_h :: "preppy_fn \<Rightarrow> pygrammar \<Rightarrow> parser \<Rightarrow> parsed" where
  "for_h pp P st =
     (let st0 = st\<lparr>inFor := inFor st + 1\<rparr> in
      rbind (guard (rbind (tokenText False True 1 st0) (iparse P))
               (u ''invalid syntax'') st0) (\<lambda>n.
      rbind (tokenPop st0) (\<lambda>(t, st1).
      rbind (pp [u ''endfor'', u ''else''] True True st1) (\<lambda>(body, st2).
      rbind (prev_tok st2) (\<lambda>pt.
      if kind pt = u ''else'' then
        rbind (pp [u ''endfor''] True False st2) (\<lambda>(orelse, st3).
        Ok ([Tree (LPy n) [body, orelse]], st3\<lparr>inFor := inFor st3 - 1\<rparr>))
      else Ok ([Tree (LPy n) [body, []]], st2\<lparr>inFor := inFor st2 - 1\<rparr>))))))"

definition with_h :: "preppy_fn \<Rightarrow> pygrammar \<Rightarrow> parser \<Rightarrow> parsed" where
  "with_h pp P st =
     rbind (guard (rbind (tokenText False True 1 st) (iparse P))
              (u ''invalid syntax'') st) (\<lambda>n.
     rbind (tokenPop st) (\<lambda>(t, st1).
     rbind (pp [u ''endwith''] True True st1) (\<lambda>(body, st2).
     Ok ([Tree (LPy n) [body]], st2))))"

text \<open>
  \<^verbatim>\<open>__tdef\<close>: the loop counters are pushed on \<^verbatim>\<open>__inTdef\<close> and zeroed, the body is parsed
  up to \<^verbatim>\<open>enddef\<close>, a \<^verbatim>\<open>return ''\<close> is appended, and the counters are popped.
\<close>

definition tdef_h :: "preppy_fn \<Rightarrow> pygrammar \<Rightarrow> parser \<Rightarrow> parsed" where
  "tdef_h pp P st =
     (let st0 = st\<lparr>inTdef := inTdef st @ [(inWhile st, inFor st)], inWhile := 0, inFor := 0\<rparr> in
      rbind (guard (rbind (tokenText False True 1 st0) (\<lambda>txt. iparse P (strip txt)))
               (u ''invalid syntax'') st0) (\<lambda>n.
      rbind (tokenPop st0) (\<lambda>(t, st1).
      rbind (pp [u ''enddef''] True True st1) (\<lambda>(body, st2).
      (case rev (inTdef st2) of
         [] \<Rightarrow> Raise IndexError
       | (w, f) # rest \<Rightarrow>
           Ok ([Tree (LPy n) [body @ [Tree LReturnEmpty []]]],
               st2\<lparr>inTdef := rev rest, inWhile := w, inFor := f\<rparr>))))))"

text \<open>
  \<^verbatim>\<open>__if\<close>: one round of its loop parses a header and its body; after an \<^verbatim>\<open>elif\<close> the
  token index is moved back onto it and the next round's node becomes the else-body.
\<close>

fun if_loop :: "nat \<Rightarrow> preppy_fn \<Rightarrow> pygrammar \<Rightarrow> parser \<Rightarrow> (tree \<times> parser) res" where
  "if_loop 0 pp P st = OutOfFuel"
| "if_loop (Suc k) pp P st =
     rbind (guard (rbind (tokenText False True 1 st)
                     (\<lambda>txt. iparse P (if starts_with (u ''elif'') txt
                                      then u ''if  '' @ drop 4 txt else txt)))
              (u ''invalid syntax'') st) (\<lambda>n.
     rbind (tokenPop st) (\<lambda>(t, st1).
     rbind (pp [u ''endif'', u ''elif'', u ''else''] True True st1) (\<lambda>(body, st2).
     rbind (prev_tok st2) (\<lambda>pt.
     if kind pt = u ''elif'' then
       rbind (if_loop k pp P (st2\<lparr>tokenX := tokenX st2 - 1\<rparr>)) (\<lambda>(sub, st3).
       Ok (Tree (LPy n) [body, [sub]], st3))
     else if kind pt = u ''else'' then
       rbind (pp [u ''endif''] True False st2) (\<lambda>(orelse, st3).
       Ok (Tree (LPy n) [body, orelse], st3))
     else Ok (Tree (LPy n) [body, []], st2)))))"

definition if_h :: "nat \<Rightarrow> preppy_fn \<Rightarrow> pygrammar \<Rightarrow> parser \<Rightarrow> parsed" where
  "if_h k pp P st = rbind (if_loop k pp P st) (\<lambda>(i, st1). Ok ([i], st1))"

text \<open>
  \<^verbatim>\<open>__try\<close>: the header and body, then the loop over the clauses. \<open>try_clause\<close> is
  the body of the loop after the clause's text \<open>txt\<close> has been read and its token
  popped; \<open>again\<close> is the next round of the loop, with the handlers and the else-body
  as they then are.
\<close>

definition try_clause ::
  "preppy_fn \<Rightarrow> pygrammar \<Rightarrow> (tree list \<Rightarrow> tree list \<Rightarrow> parser \<Rightarrow> parsed) \<Rightarrow>
   tree list \<Rightarrow> tree list \<Rightarrow> tree list \<Rightarrow> ustr \<Rightarrow> parser \<Rightarrow> parsed" where
  "try_clause pp P again body handlers orelse txt st1 =
     (if starts_with (u ''endtry'') txt then
        (if txt \<noteq> u ''endtry'' then error_at (u ''invalid endtry statement'') st1
         else Ok ([Tree LTry [body, handlers, orelse, []]], st1))
      else if starts_with (u ''finally'') txt then
        (if txt \<noteq> u ''finally'' then error_at (u ''invalid finally statement'') st1
         else rbind (pp [u ''endtry''] True False st1) (\<lambda>(finalbody, st2).
              Ok ([Tree LTry [body, handlers, orelse, finalbody]], st2)))
      else if starts_with (u ''else'') txt then
        (if txt \<noteq> u ''else'' then error_at (u ''invalid else statement'') st1
         else rbind (pp [u ''finally'', u ''endtry''] False False st1) (\<lambda>(orelse1, st2).
              again handlers orelse1 st2))
      else if starts_with (u ''except'') txt then
        rbind (rbind (iparse P (u ''try:'' @ [10, 9] @ u ''pass'' @ [10] @ txt
                                 @ [58, 10, 9] @ u ''pass'' @ [10]))
                 (\<lambda>n. case st_handlers n of
                         None \<Rightarrow> Raise AttributeError
                       | Some 0 \<Rightarrow> Raise IndexError
                       | Some (Suc j) \<Rightarrow> Ok n)) (\<lambda>exh.
        rbind (pp (if txt = u ''except'' then [u ''finally'', u ''else'', u ''endtry'']
                   else [u ''except'', u ''finally'', u ''endtry'', u ''else''])
                 False True st1) (\<lambda>(hbody, st2).
        again (handlers @ [Tree (LHandler exh) [hbody]]) orelse st2))
      else Raise AttributeError)"

fun try_loop ::
  "nat \<Rightarrow> preppy_fn \<Rightarrow> pygrammar \<Rightarrow> tree list \<Rightarrow> tree list \<Rightarrow> tree list \<Rightarrow> parser \<Rightarrow> parsed" where
  "try_loop 0 pp P body handlers orelse st = OutOfFuel"
| "try_loop (Suc k) pp P body handlers orelse st =
     rbind (tokenText True True 0 st) (\<lambda>txt.
     rbind (tokenPop st) (\<lambda>(t, st1).
     try_clause pp P (try_loop k pp P body) body handlers orelse txt st1))"

definition try_h :: "nat \<Rightarrow> preppy_fn \<Rightarrow> pygrammar \<Rightarrow> parser \<Rightarrow> parsed" where
  "try_h k pp P st =
     rbind (tokenText True True 0 st) (\<lambda>txt.
     if txt \<noteq> u ''try'' then serror (u ''invalid try statement'') st
     else
       rbind (tokenPop st) (\<lambda>(t, st1).
       rbind (pp [u ''except'', u ''finally''] False True st1) (\<lambda>(body, st2).
       try_loop k pp P body [] [] st2)))"

text \<open>
  \<^verbatim>\<open>__match\<close>: after the header only literal text that is white space may come before
  the first directive. \<open>skip_consts ts i\<close> runs that loop over the tokens \<open>ts\<close> from
  index \<open>i\<close> on and gives the index it stops at.
\<close>

fun skip_consts :: "ustr \<Rightarrow> Token list \<Rightarrow> nat \<Rightarrow> nat res" where
  "skip_consts src [] i = Raise IndexError"
| "skip_consts src (t # ts) i =
     (if kind t \<noteq> u ''const'' then Ok i
      else if strip (slice src (start t) (stop t)) \<noteq> [] then
        Raise (SyntaxError (u ''unexpected text, %r, in start of match'') (start t))
      else skip_consts src ts (i + 1))"

definition match_h :: "preppy_fn \<Rightarrow> pygrammar \<Rightarrow> parser \<Rightarrow> parsed" where
  "match_h pp P st =
     (let st0 = st\<lparr>inMatch := inMatch st + 1\<rparr> in
      rbind (guard (rbind (tokenText False True 2 st0) (iparse P))
               (u ''invalid syntax'') st0) (\<lambda>n.
      rbind (tokenPop st0) (\<lambda>(t, st1).
      rbind (skip_consts (source st1) (drop (tokenX st1) (p_tokens st1)) (tokenX st1)) (\<lambda>i.
      rbind (pp [u ''endmatch''] True True (st1\<lparr>tokenX := i\<rparr>)) (\<lambda>(cases, st2).
      Ok ([Tree (LPy n) [cases]], st2\<lparr>inMatch := inMatch st2 - 1\<rparr>))))))"

text \<open>
  \<^verbatim>\<open>__case\<close>: one round per consecutive \<^verbatim>\<open>case\<close> token. The body is parsed before
  \<^verbatim>\<open>n.cases[0]\<close> is looked up.
\<close>

fun case_loop :: "nat \<Rightarrow> preppy_fn \<Rightarrow> pygrammar \<Rightarrow> tree list \<Rightarrow> parser \<Rightarrow> parsed" where
  "case_loop 0 pp P acc st = OutOfFuel"
| "case_loop (Suc k) pp P acc st =
     rbind (tok st) (\<lambda>t.
     if kind t \<noteq> u ''case'' then Ok (acc, st)
     else
       rbind (guard (rbind (tokenText False True 3 st) (iparse P))
                (u ''invalid syntax'') st) (\<lambda>n.
       rbind (tokenPop st) (\<lambda>(t1, st1).
       rbind (pp [u ''case'', u ''endmatch''] False True st1) (\<lambda>(body, st2).
       (case st_cases n of
          None \<Rightarrow> Raise AttributeError
        | Some 0 \<Rightarrow> Raise IndexError
        | Some (Suc j) \<Rightarrow> case_loop k pp P (acc @ [Tree (LCase n) [body]]) st2)))))"

definition case_h :: "nat \<Rightarrow> preppy_fn \<Rightarrow> pygrammar \<Rightarrow> parser \<Rightarrow> parsed" where
  "case_h k pp P st =
     rbind (case_loop k pp P [] (st\<lparr>inCase := inCase st + 1\<rparr>)) (\<lambda>(r, st1).
     Ok (r, st1\<lparr>inCase := inCase st1 - 1\<rparr>))"

subsection \<open>\<^verbatim>\<open>__preppy\<close>\<close>

definition funcs :: "ustr list" where
  "funcs = map u [''const'', ''expr'', ''while'', ''if'', ''for'', ''script'', ''eval'', ''def'',
     ''continue'', ''break'', ''try'', ''raise'', ''with'', ''import'', ''from'', ''assert'',
     ''tdef'', ''return'', ''match'', ''case'']"

text \<open>
  \<^verbatim>\<open>getattr(self, mangle+t)()\<close> for a kind \<open>t\<close> of \<open>funcs\<close>; \<open>k\<close> is the fuel of the
  loops of \<^verbatim>\<open>__if\<close>, \<^verbatim>\<open>__try\<close> and \<^verbatim>\<open>__case\<close>.
\<close>

definition dispatch :: "nat \<Rightarrow> preppy_fn \<Rightarrow> pygrammar \<Rightarrow> ustr \<Rightarrow> parser \<Rightarrow> parsed" where
  "dispatch k pp P t st =
     (if t = u ''const'' then const_h st
      else if t = u ''expr'' then expr_h P st
      else if t = u ''while'' then while_h pp P st
      else if t = u ''if'' then if_h k pp P st
      else if t = u ''for'' then for_h pp P st
      else if t = u ''script'' then script_h P (u ''script'') st
      else if t = u ''eval'' then script_h P (u ''eval'') st
      else if t = u ''def'' then def_h P st
      else if t = u ''continue'' then break_h (u ''continue'') st
      else if t = u ''break'' then break_h (u ''break'') st
      else if t = u ''try'' then try_h k pp P st
      else if t = u ''raise'' then raise_h P st
      else if t = u ''with'' then with_h pp P st
      else if t = u ''import'' then import_h P st
      else if t = u ''from'' then import_h P st
      else if t = u ''assert'' then import_h P st
      else if t = u ''tdef'' then tdef_h pp P st
      else if t = u ''return'' then return_h P st
      else if t = u ''match'' then match_h pp P st
      else case_h k pp P st)"

text \<open>
  \<^verbatim>\<open>__preppy\<close>: \<open>C\<close> is the list built so far. Each round of the loop takes one unit of
  fuel, and the handler it calls gets what is left.
\<close>

fun preppy ::
  "nat \<Rightarrow> pygrammar \<Rightarrow> ustr list \<Rightarrow> bool \<Rightarrow> bool \<Rightarrow> tree list \<Rightarrow> parser \<Rightarrow> parsed" where
  "preppy 0 P followers pop fixEmpty C st = OutOfFuel"
| "preppy (Suc n) P followers pop fixEmpty C st =
     rbind (tok st) (\<lambda>t.
     if kind t \<in> set followers then
       (let C1 = (if C = [] \<and> fixEmpty then [Tree LPass []] else C)
        in if pop then rbind (tokenPop st) (\<lambda>(t1, st1). Ok (C1, st1)) else Ok (C1, st))
     else
       rbind (if kind t \<in> set funcs
              then dispatch n (\<lambda>fo po fe st1. preppy n P fo po fe [] st1) P (kind t) st
              else serror (u ''invalid syntax'') st) (\<lambda>(r, st1).
       preppy n P followers pop fixEmpty (C @ r) st1))"

text \<open>
  \<^verbatim>\<open>__parse\<close> on a new parser: the lexer, then \<^verbatim>\<open>__preppy\<close> with its defaults.
\<close>

definition parser_init :: "ustr \<Rightarrow> Token list \<Rightarrow> parser" where
  "parser_init src ts =
     \<lparr>source = src, p_tokens = ts, tokenX = 0, inFor = 0, inWhile = 0, inMatch = 0,
      inCase = 0, inTdef = [], fnc_defn = None\<rparr>"

definition parse :: "nat \<Rightarrow> pygrammar \<Rightarrow> (nat \<Rightarrow> bool) \<Rightarrow> ustr \<Rightarrow> parsed" where
  "parse n P uw src =
     (case tokenize uw src of
        Inl e \<Rightarrow> Raise e
      | Inr (ts, d) \<Rightarrow> preppy n P [u ''eof''] True False [] (parser_init src ts))"

text \<open>
  What the function \<open>pp\<close> of a handler must do for the handler to leave \<^verbatim>\<open>__inTdef\<close>
  as it found it.
\<close>

definition keeps_inTdef :: "preppy_fn \<Rightarrow> bool" where
  "keeps_inTdef pp = (\<forall>fo po fe s r s'. pp fo po fe s = Ok (r, s') \<longrightarrow> inTdef s' = inTdef s)"


text \<open>
  For evaluating the parser: a grammar that takes every text as one statement, and
  two templates with their token lists, a \<^verbatim>\<open>return\<close> after the signature tag
  \<^verbatim>\<open>{{def(a)}}\<close> and a \<^verbatim>\<open>return\<close> inside the named block \<^verbatim>\<open>{{def f(a)}}\<close>;
  \<open>in_tdef_state\<close> is the parser at the \<^verbatim>\<open>return\<close> of the second.
\<close>

definition accept_all :: pygrammar where
  "accept_all =
     (\<lambda>t. Inr [\<lparr>st_text = t, has_value = True, st_handlers = Some 1, st_cases = Some 1\<rparr>])"






text \<open>
  A third template, with the \<^verbatim>\<open>return\<close> inside a loop inside a named block, its token
  list, and the parser at the \<^verbatim>\<open>while\<close>; \<open>stmt_of t\<close> is the statement \<open>accept_all\<close>
  makes of the text \<open>t\<close>.
\<close>

definition tpl_nested_return :: ustr where
  "tpl_nested_return = u ''{{def f(a)}}{{while x}}{{return a}}{{endwhile}}{{enddef}}''"

definition toks_nested_return :: "Token list" where
  "toks_nested_return =
     [\<lparr>kind = u ''tdef'', start = 2, stop = 10\<rparr>,
      \<lparr>kind = u ''while'', start = 14, stop = 21\<rparr>,
      \<lparr>kind = u ''return'', start = 25, stop = 33\<rparr>,
      \<lparr>kind = u ''endwhile'', start = 37, stop = 45\<rparr>,
      \<lparr>kind = u ''enddef'', start = 49, stop = 55\<rparr>,
      \<lparr>kind = u ''eof'', start = 57, stop = 57\<rparr>]"

definition in_named_state :: parser where
  "in_named_state =
     \<lparr>source = tpl_nested_return, p_tokens = toks_nested_return, tokenX = 1, inFor = 0,
      inWhile = 0, inMatch = 0, inCase = 0, inTdef = [(0, 0)], fnc_defn = None\<rparr>"

definition stmt_of :: "ustr \<Rightarrow> pystmt" where
  "stmt_of t = \<lparr>st_text = t, has_value = True, st_handlers = Some 1, st_cases = Some 1\<rparr>"

section \<open>Properties of the whitespace controller\<close>

lemma c_normal: "ws w = 0 \<Longrightarrow> c w s = (Inr s, w\<lparr>ws := 0\<rparr>)"
  by (simp add: c_def)

lemma c_dnl_text:
  assumes "ws w = 1" and "dropWhile (\<lambda>ch. ch \<in> set wsc) t = h # r"
  shows "c w (PStr k t) = (Inr (PStr Plain (if h = 10 then r else h # r)), w\<lparr>ws := 0\<rparr>)"
  using assms by (simp add: c_def c_strip_def pats_sub_def)

lemma c_dnl_text_empty:
  assumes "ws w = 1" and "dropWhile (\<lambda>ch. ch \<in> set wsc) t = []"
  shows "c w (PStr k t) = (Inl IndexError, w\<lparr>ws := 0\<rparr>)"
  using assms by (simp add: c_def c_strip_def pats_sub_def del: dropWhile_eq_Nil_conv)

lemma c_dws_text:
  assumes "ws w = 2"
  shows "c w (PStr k t) =
           (Inr (PStr Plain (dropWhile (\<lambda>ch. ch \<in> set (wsc @ [10])) t)), w\<lparr>ws := 0\<rparr>)"
  using assms by (simp add: c_def c_strip_def pats_sub_def)

lemma c_dnl_newline_indent:
  "c (snd (dnl wss_init)) (PStr Plain (10 # u ''    '' @ rest))
     = (Inr (PStr Plain (u ''    '' @ rest)), wss_init)"
  by (simp add: c_def c_strip_def pats_sub_def wsc_def u_def dnl_def wss_init_def)

text \<open>
  C1. A literal-write in the suppress-to-newline state is meant to strip the leading
  whitespace class and a following newline and hand the rest on. On a literal that
  consists of class characters only (here four spaces, written right after a
  \<^verbatim>\<open>dnl\<close>) nothing is left after the substitution, the test \<^verbatim>\<open>s[0]==u'\n'\<close> indexes
  the empty string, and the call raises \<^verbatim>\<open>IndexError\<close> instead of returning the empty
  literal. So does \<^verbatim>\<open>run\<close> on a body that writes \<^verbatim>\<open>{{.dnl}}\<close> and then that literal.
\<close>

theorem c_dnl_whitespace_only_raises:
  "c (snd (dnl wss_init)) (PStr Plain (u ''    '')) = (Inl IndexError, wss_init)
   \<and> fst (run False False [Dnl, Lit (PStr Plain (u ''    ''))] True None False None
              \<lparr>written = [], sys_stdout = Original\<rparr>) = Some IndexError"
  by (simp add: c_def c_strip_def pats_sub_def wsc_def u_def dnl_def wss_init_def
        run_def run_try_def get_conv_def swrite_def lwrite_def x_def to_unicode_def Let_def)

text \<open>
  C8. After every literal-write \<^verbatim>\<open>c(s)\<close> the controller is in the normal state
  (\<^verbatim>\<open>ws == 0\<close>), whatever the state before and whatever the argument; the reset is the
  second statement of the method, so it has happened also when the call raises.
\<close>

theorem c_always_resets: "ws (snd (c w s)) = 0"
  by (simp add: c_def Let_def split: pyval.splits sum.splits)

section \<open>Properties of the standard conversions\<close>

lemma xmlEscape_lt: "xmlEscape (u ''<'') = u ''&lt;''"
  by (simp add: xmlEscape_def replace_ch_def u_def)

text \<open>
  C9, as the code has it. \<^verbatim>\<open>uStdQuote\<close> XML-escapes an ordinary string (\<^verbatim>\<open><\<close> becomes
  \<^verbatim>\<open>&lt;\<close>), returns a \<^verbatim>\<open>SafeUnicode\<close> as it is, and returns a \<^verbatim>\<open>SafeString\<close> decoded from
  UTF-8 and not escaped (or raises where the bytes are not UTF-8). It is not the default:
  with no quote function supplied \<^verbatim>\<open>__get_conv__\<close> hands out \<^verbatim>\<open>uStdConv\<close> (\<^verbatim>\<open>bStdConv\<close> for a
  bytes template) as the expression-quote function, which returns a string as it is.
\<close>

theorem uStdQuote_safe_unescaped:
  "uStdQuote (PStr Plain t) = Inr (PStr Plain (xmlEscape t))
   \<and> uStdQuote (PStr Plain (u ''<'')) = Inr (PStr Plain (u ''&lt;''))
   \<and> SafeString (PStr Plain t) = Some (PStr SafeU t)
   \<and> SafeString (PBytes False b) = Some (PBytes True b)
   \<and> uStdQuote (PStr SafeU t) = Inr (PStr SafeU t)
   \<and> uStdQuote (PBytes True b) =
        (case utf8_decode b of Inl e \<Rightarrow> Inl e | Inr t' \<Rightarrow> Inr (PStr Plain t'))
   \<and> get_conv None None False = Inr (UStdConv, UnicodeT)
   \<and> get_conv None None True = Inr (BStdConv, BytesT)
   \<and> apply_conv UStdConv (PStr k t) = Inr (PStr k t)"
  by (simp add: xmlEscape_lt get_conv_def to_unicode_def)

text \<open>
  C9 as stated fails for the default: \<^verbatim>\<open>run\<close> with no quote function writes the value
  \<^verbatim>\<open><\<close> of an expression as it is, not as \<^verbatim>\<open>&lt;\<close>.
\<close>

theorem default_quote_counterexample:
  "run False False [Expr (PStr Plain (u ''<''))] True None False None
       \<lparr>written = [], sys_stdout = Original\<rparr>
     = (None, \<lparr>written = [(Callback, PStr Plain (u ''<''))], sys_stdout = Original\<rparr>)
   \<and> PStr Plain (u ''<'') \<noteq> PStr Plain (u ''&lt;'')"
  by (simp add: run_def run_try_def get_conv_def swrite_def x_def to_unicode_def Let_def
        wss_init_def u_def)

lemma get_conv_default: "get_conv None None False = Inr (UStdConv, UnicodeT)"
  by (simp add: get_conv_def)

text \<open>
  C10. The default conversion and the default quote both map \<^verbatim>\<open>None\<close> to the empty
  text, so an expression-write of \<^verbatim>\<open>None\<close> under the default expression conversion hands
  the sink the empty text.
\<close>

theorem None_gives_empty:
  "uStdConv PNone = Inr (PStr Plain []) \<and> uStdQuote PNone = Inr (PStr Plain [])
   \<and> swrite \<lparr>w_sink = k, w_qFunc = UStdConv, w_lconv = l\<rparr> PNone (wss, wo)
       = (None, (wss\<lparr>ws := 0\<rparr>, wo\<lparr>written := written wo @ [(k, PStr Plain [])]\<rparr>))"
  by (simp add: swrite_def x_def)

section \<open>Properties of quote resolution\<close>

lemma asUtf8_bytes: "asUtf8 v = Inr y \<Longrightarrow> is_bytes y"
  by (cases v) (auto simp: asUtf8_def split: sum.splits)

lemma asUnicode_text: "asUnicode v = Inr y \<Longrightarrow> is_text y"
  by (cases v) (auto simp: asUnicode_def split: sum.splits)

lemma to_unicode_text: "to_unicode v = Inr y \<Longrightarrow> is_text y"
  by (cases v) (auto simp: to_unicode_def split: sum.splits)

lemma uStdConv_text: "uStdConv v = Inr y \<Longrightarrow> is_text y"
  by (cases v) (auto split: sum.splits dest: to_unicode_text)

lemma py_encode_bytes: "py_encode v = Inr y \<Longrightarrow> is_bytes y"
  by (cases v) (auto split: sum.splits)

lemma bStdConv_bytes: "bStdConv v = Inr y \<Longrightarrow> is_bytes y"
  by (auto simp: bStdConv_def split: sum.splits dest: py_encode_bytes)

text \<open>
  C3. When exactly one function of the pair is supplied and it returns \<open>r\<close> on the
  empty text, the other is derived from the kind of \<open>r\<close>: bytes gives \<^verbatim>\<open>asUtf8\<close> as the
  literal partner and \<^verbatim>\<open>bStdConv\<close> as the expression partner, whose results are always
  bytes; text gives \<^verbatim>\<open>asUnicode\<close> and \<^verbatim>\<open>uStdConv\<close>, whose results are always text.
\<close>

theorem get_conv_derives_partner:
  assumes "apply_conv f (PStr Plain []) = Inr r"
  shows "(is_bytes r \<longrightarrow>
            get_conv (Some f) None b = Inr (f, AsUtf8)
            \<and> get_conv None (Some f) b = Inr (BStdConv, f))
         \<and> (is_text r \<longrightarrow>
            get_conv (Some f) None b = Inr (f, AsUnicode)
            \<and> get_conv None (Some f) b = Inr (UStdConv, f))
         \<and> (\<forall>v y. apply_conv AsUtf8 v = Inr y \<longrightarrow> is_bytes y)
         \<and> (\<forall>v y. apply_conv BStdConv v = Inr y \<longrightarrow> is_bytes y)
         \<and> (\<forall>v y. apply_conv AsUnicode v = Inr y \<longrightarrow> is_text y)
         \<and> (\<forall>v y. apply_conv UStdConv v = Inr y \<longrightarrow> is_text y)"
proof -
  have "is_text r \<Longrightarrow> \<not> is_bytes r"
    by (cases r) simp_all
  then show ?thesis
    using assms asUtf8_bytes bStdConv_bytes asUnicode_text uStdConv_text
    by (auto simp: get_conv_def)
qed

theorem get_conv_derives_partner_witness:
  "get_conv (Some AsUtf8) None False = Inr (AsUtf8, AsUtf8)
   \<and> get_conv None (Some AsUtf8) False = Inr (BStdConv, AsUtf8)
   \<and> get_conv (Some UnicodeT) None False = Inr (UnicodeT, AsUnicode)
   \<and> get_conv None (Some UnicodeT) False = Inr (UStdConv, UnicodeT)
   \<and> is_bytes (PBytes False []) \<and> is_text (PStr Plain [])"
proof -
  have b: "apply_conv AsUtf8 (PStr Plain []) = Inr (PBytes False [])"
    by (simp add: asUtf8_def)
  have t: "apply_conv UnicodeT (PStr Plain []) = Inr (PStr Plain [])"
    by simp
  show ?thesis
    using get_conv_derives_partner [OF b, of False] get_conv_derives_partner [OF t, of False]
    by simp
qed

section \<open>Properties of the run procedure\<close>

text \<open>
  C7, as the code has it. With both a \<^verbatim>\<open>__write__\<close> callback and an \<^verbatim>\<open>outputfile\<close>
  other than \<^verbatim>\<open>None\<close>, \<^verbatim>\<open>run\<close> raises before the body runs and leaves the world as it
  found it: nothing is written. Quote resolution comes first, so what it raises (a
  lone quote function is called on the empty text) is what \<^verbatim>\<open>run\<close> raises; otherwise
  the exception is the \<^verbatim>\<open>ValueError\<close>.
\<close>

theorem run_both_sinks_raises:
  "run ovr isbytes body True quoteFunc True lquoteFunc wo =
     (case get_conv quoteFunc lquoteFunc isbytes of
        Inl e \<Rightarrow> (Some e, wo)
      | Inr _ \<Rightarrow> (Some (ValueError ''do not define both outputfile and __write__.''), wo))"
  by (simp add: run_def run_try_def split: sum.splits)

text \<open>
  C7 as stated fails where the only quote function supplied raises on the empty text:
  \<^verbatim>\<open>run\<close> raises that exception, not a \<^verbatim>\<open>ValueError\<close>.
\<close>

theorem run_both_sinks_counterexample:
  "fst (run False False [] True (Some (User (\<lambda>v. Inl IndexError))) True None
          \<lparr>written = [], sys_stdout = Original\<rparr>) = Some IndexError"
  by (simp add: run_def run_try_def get_conv_def)

section \<open>Properties of the lexer\<close>

lemmas kw_defs = start_keywords_def end_keywords_def u_def

lemma match_start_none_end_all:
  "\<forall>k \<in> set end_keywords. match_start start_keywords (k @ extra) = None"
  by (simp add: kw_defs)

lemma match_end_end_all:
  "\<forall>k \<in> set end_keywords.
   match_end end_keywords (k @ extra) = Some (MEnd k (if ws_eol extra then None else Some extra))"
  by (simp add: kw_defs Let_def)

lemma not_def_end_all:
  "\<forall>k \<in> set end_keywords. \<not> starts_with (u ''def'') (k @ extra)"
  by (simp add: kw_defs)

lemma s_match_end:
  assumes "k \<in> set end_keywords"
  shows "s_match uw (k @ extra) = Some (MEnd k (if ws_eol extra then None else Some extra))"
  using assms match_start_none_end_all [of extra] match_end_end_all [of extra] not_def_end_all [of extra]
  by (simp add: s_match_def match_tdef_def match_def_def)

lemma not_ws_eol_nonempty: "\<not> ws_eol extra \<Longrightarrow> extra \<noteq> []"
  by (auto simp: ws_eol_def)

lemma end_keyword_ws_eol:
  assumes "k \<in> set end_keywords" and "ws_eol extra"
  shows "classify uw d (k @ extra) i0 = Inr (k, d)"
  using assms by (simp add: classify_def s_match_end)
















lemma classify_defSeen:
  "classify uw d txt i0 = Inr (t, d') \<Longrightarrow> d \<noteq> 0 \<Longrightarrow> d' = d"
  by (auto simp: classify_def lexerror_def split: option.splits smatch.splits if_splits)

lemma lex_step_defSeen:
  assumes "state L \<noteq> 0" and "lex_step uw text L (False, i0, i1) = Inr L'"
  shows "defSeen L' \<noteq> 0 \<and> (defSeen L \<noteq> 0 \<longrightarrow> defSeen L' = defSeen L)"
  using assms
  by (auto simp: lex_step_def split: sum.splits if_splits dest: classify_defSeen)


text \<open>
  C6, as the code has it. For a tag whose text is a keyword of the end group followed
  by extra text on the same line (the rest \<open>extra\<close> has a character that is not white
  space, and no line feed in front of it), lexing fails with \<^verbatim>\<open>Bad <keyword>\<close> unless the
  extra text is \<^verbatim>\<open>:\<close> after stripping or the keyword is \<^verbatim>\<open>else\<close>, which the check
  exempts.
\<close>

theorem end_keyword_extra_text:
  assumes "k \<in> set end_keywords" and "\<not> ws_eol extra"
  shows "classify uw d (k @ extra) i0 =
           (if k \<noteq> u ''else'' \<and> strip extra \<noteq> [58]
            then Inl (SyntaxError (u ''Bad '' @ k) i0) else Inr (k, d))"
  using assms not_ws_eol_nonempty [OF assms(2)]
  by (simp add: classify_def s_match_end lexerror_def)


theorem end_keyword_extra_text_witness:
  "classify (\<lambda>ch. False) 0 (u ''endif x'') 9 = Inl (SyntaxError (u ''Bad endif'') 9)
   \<and> classify (\<lambda>ch. False) 0 (u ''endif :'') 9 = Inr (u ''endif'', 0)
   \<and> classify (\<lambda>ch. False) 0 (u ''else x'') 8 = Inr (u ''else'', 0)"
proof -
  have k1: "u ''endif'' \<in> set end_keywords" and k2: "u ''else'' \<in> set end_keywords"
    by (simp_all add: kw_defs)
  have e1: "\<not> ws_eol (u '' x'')" and e2: "\<not> ws_eol (u '' :'')"
    by (simp_all add: ws_eol_def is_space_def u_def)
  have s1: "strip (u '' x'') \<noteq> [58]" and s2: "strip (u '' :'') = [58]"
    by (simp_all add: strip_def is_space_def u_def)
  have n: "u ''endif'' \<noteq> u ''else''"
    by (simp add: u_def)
  show ?thesis
    using end_keyword_extra_text [OF k1 e1, of "\<lambda>ch. False" 0 9]
          end_keyword_extra_text [OF k1 e2, of "\<lambda>ch. False" 0 9]
          end_keyword_extra_text [OF k2 e1, of "\<lambda>ch. False" 0 8] s1 s2 n
    by (simp add: u_def)
qed

text \<open>
  C6 as stated fails for \<^verbatim>\<open>else\<close>: the tag \<^verbatim>\<open>{{else x}}\<close> lexes to an \<^verbatim>\<open>else\<close> token.
\<close>

lemmas lex_eval = tokenize_def tokenize_from_def lex_finish_def lex_step_def classify_def
  s_match_def match_def_def match_tdef_def start_keywords_def end_keywords_def no_ws_needed_def
  lexer_init_def slice_def u_def is_space_def lexerror_def is_ident_start_def ws_eol_def
  strip_def upto_last_nl_def

theorem end_keyword_else_counterexample:
  "tokenize (\<lambda>ch. False) (u ''{{else x}}'') =
     Inr ([\<lparr>kind = u ''else'', start = 2, stop = 8\<rparr>, \<lparr>kind = u ''eof'', start = 10, stop = 10\<rparr>],
          - 1)"
  by (simp add: lex_eval)
















section \<open>Properties of the artifact cache\<close>

lemma getModule_hit:
  assumes "SOURCE_MODULES st txt = Some m" and "getMd5 E txt = Inr cs"
  shows "getModule E n d txt sf sp im ex st = (Inr m, st)"
  using assms by (simp add: getModule_def Let_def split: prod.splits)

lemma install_module_cached:
  "install_module n pp txt sfn cs im ex st = (m, st') \<Longrightarrow> im \<noteq> 0 \<Longrightarrow>
     SOURCE_MODULES st' txt = Some m \<and> map_option mod_checksum (heap st' m) = Some cs"
  by (auto simp: install_module_def Let_def split: option.splits)

lemma rebuild_cached:
  "rebuild E n dir txt sfn cs sp im ex st = (Inr m, st') \<Longrightarrow> im \<noteq> 0 \<Longrightarrow>
     SOURCE_MODULES st' txt = Some m \<and> map_option mod_checksum (heap st' m) = Some cs"
  by (auto simp: rebuild_def Let_def split: option.splits if_splits prod.splits
           dest: install_module_cached)

lemma getModule_cached:
  assumes "getModule E n d txt sf sp im ex st = (Inr m, st')" and "im \<noteq> 0"
  shows "SOURCE_MODULES st' txt = Some m
         \<and> (\<exists>cs. getMd5 E txt = Inr cs
                \<and> (SOURCE_MODULES st txt = None \<longrightarrow>
                     map_option mod_checksum (heap st' m) = Some cs))"
  using assms
  by (auto simp: getModule_def Let_def split: prod.splits sum.splits option.splits
           dest: rebuild_cached)

text \<open>
  C2, as the code has it. When a call of \<^verbatim>\<open>getModule\<close> on a source text, made with a
  true \<^verbatim>\<open>importModule\<close>, has returned a module, any later call on the same text,
  whatever its other arguments, returns the same module object and leaves the caches,
  the heap and the record of rebuilds and written files as they were. The checksum
  both calls compute is the same, and it is the \<^verbatim>\<open>__checksum__\<close> of the module when the
  first call built it.
\<close>

theorem second_call_returns_cached:
  assumes "getModule E n1 d1 txt sf1 sp1 im1 ex1 st = (Inr m, st')" and "im1 \<noteq> 0"
  shows "getModule E n2 d2 txt sf2 sp2 im2 ex2 st' = (Inr m, st')
         \<and> (\<exists>cs. getMd5 E txt = Inr cs
                \<and> (SOURCE_MODULES st txt = None \<longrightarrow>
                     map_option mod_checksum (heap st' m) = Some cs))"
  using getModule_cached [OF assms] getModule_hit by blast

lemmas cache_eval = getModule_def rebuild_def install_module_def sample_env_def
  empty_caches_def getMd5_def VERSION_def u_def encode_cp_def Let_def

theorem second_call_returns_cached_witness:
  "fst (getModule sample_env (u ''t'') (u ''.'') (u ''Hi'') False 1 1 None empty_caches) = Inr 0
   \<and> getModule sample_env (u ''other'') (u ''/tmp'') (u ''Hi'') True 0 0 (Some 7)
        (snd (getModule sample_env (u ''t'') (u ''.'') (u ''Hi'') False 1 1 None empty_caches))
      = (Inr 0,
         snd (getModule sample_env (u ''t'') (u ''.'') (u ''Hi'') False 1 1 None empty_caches))"
proof -
  have f: "fst (getModule sample_env (u ''t'') (u ''.'') (u ''Hi'') False 1 1 None empty_caches)
             = Inr 0"
    by (simp add: cache_eval)
  then have first:
    "getModule sample_env (u ''t'') (u ''.'') (u ''Hi'') False 1 1 None empty_caches
       = (Inr 0,
          snd (getModule sample_env (u ''t'') (u ''.'') (u ''Hi'') False 1 1 None empty_caches))"
    by (simp add: prod_eq_iff)
  have one: "(1::nat) \<noteq> 0" by simp
  from second_call_returns_cached [OF first one] f show ?thesis
    by blast
qed

text \<open>
  C2 as stated fails when the first call is made with \<^verbatim>\<open>importModule=0\<close>: nothing is
  cached, and the second call compiles the text again, writes the \<^verbatim>\<open>.pyc\<close> again and
  returns a new module.
\<close>

theorem second_call_rebuilds_counterexample:
  "fst (getModule sample_env (u ''t'') (u ''.'') (u ''Hi'') False 1 0 None empty_caches) = Inr 0
   \<and> fst (getModule sample_env (u ''t'') (u ''.'') (u ''Hi'') False 1 1 None
        (snd (getModule sample_env (u ''t'') (u ''.'') (u ''Hi'') False 1 0 None empty_caches)))
      = Inr 1
   \<and> events (snd (getModule sample_env (u ''t'') (u ''.'') (u ''Hi'') False 1 1 None
        (snd (getModule sample_env (u ''t'') (u ''.'') (u ''Hi'') False 1 0 None empty_caches))))
      = [Compiled (u ''<input text t>'') (u ''Hi4.3.0''), WrotePyc (u ''./t.pyc''),
         Compiled (u ''<input text t>'') (u ''Hi4.3.0''), WrotePyc (u ''./t.pyc'')]"
  by (simp add: cache_eval)

section \<open>Properties of the parser\<close>

lemma rbind_Ok: "rbind m f = Ok v \<longleftrightarrow> (\<exists>a. m = Ok a \<and> f a = Ok v)"
  by (cases m) (auto simp: rbind_def)














lemma keeps_inTdefD: "keeps_inTdef pp \<Longrightarrow> pp fo po fe s = Ok (r, s') \<Longrightarrow> inTdef s' = inTdef s"
  by (auto simp: keeps_inTdef_def)















lemma dispatch_return: "dispatch k pp P (u ''return'') st = return_h P st"
  by (simp add: dispatch_def u_def)


lemma return_in_funcs: "u ''return'' \<in> set funcs" and def_in_funcs: "u ''def'' \<in> set funcs"
  by (simp_all add: funcs_def u_def)



lemma return_h_inside:
  assumes "inTdef st \<noteq> []" and "tokenText False True 0 st = Ok tx" and "rparse P tx = Ok tf"
  shows "return_h P st = Ok (raw_nodes tf, st\<lparr>tokenX := tokenX st + 1\<rparr>)"
proof -
  from assms(2) obtain t where "tok st = Ok t"
    by (auto simp: tokenText_def rbind_Ok)
  with assms show ?thesis
    by (simp add: return_h_def rbind_def guard_def tokenPop_def)
qed






lemma preppy_follower:
  assumes "tok st = Ok t" and "kind t \<in> set fo"
  shows "preppy (Suc n) P fo True fe C st =
           Ok (if C = [] \<and> fe then [Tree LPass []] else C, st\<lparr>tokenX := tokenX st + 1\<rparr>)"
  using assms by (simp add: rbind_def tokenPop_def Let_def)

lemma preppy_dispatch:
  assumes "tok st = Ok t" and "kind t \<notin> set fo" and "kind t \<in> set funcs"
    and "dispatch n (\<lambda>fo po fe s. preppy n P fo po fe [] s) P (kind t) st = Ok (r, st1)"
  shows "preppy (Suc n) P fo po fe C st = preppy n P fo po fe (C @ r) st1"
  using assms by (subst preppy.simps(2)) (simp add: rbind_def del: preppy.simps)

lemma dispatch_tdef: "dispatch k pp P (u ''tdef'') st = tdef_h pp P st"
  by (simp add: dispatch_def u_def)

lemma tdef_h_step:
  assumes "tokenText False True 1
             (st\<lparr>inTdef := inTdef st @ [(inWhile st, inFor st)], inWhile := 0, inFor := 0\<rparr>) = Ok tx"
    and "iparse P (strip tx) = Ok nd"
    and "pp [u ''enddef''] True True
           (st\<lparr>inTdef := inTdef st @ [(inWhile st, inFor st)], inWhile := 0, inFor := 0,
               tokenX := tokenX st + 1\<rparr>) = Ok (body, st2)"
    and "inTdef st2 = inTdef st @ [(inWhile st, inFor st)]"
  shows "tdef_h pp P st =
           Ok ([Tree (LPy nd) [body @ [Tree LReturnEmpty []]]],
               st2\<lparr>inTdef := inTdef st, inWhile := inWhile st, inFor := inFor st\<rparr>)"
proof -
  from assms(1) obtain t where
    "tok (st\<lparr>inTdef := inTdef st @ [(inWhile st, inFor st)], inWhile := 0, inFor := 0\<rparr>) = Ok t"
    by (auto simp: tokenText_def rbind_Ok)
  with assms show ?thesis
    by (simp add: tdef_h_def Let_def rbind_def guard_def tokenPop_def)
qed


lemmas text_eval = tokenText_def tok_def rbind_def parser_init_def slice_def strip_def
      is_space_def ends_with_def unescape_def replace_def u_def Let_def


lemma rparse_return_a: "rparse accept_all (u ''return a'') =
   Ok [\<lparr>st_text = u ''return a'', has_value = True, st_handlers = Some 1, st_cases = Some 1\<rparr>]"
  by (simp add: rparse_def accept_all_def)


























lemma dispatch_while: "dispatch k pp P (u ''while'') st = while_h pp P st"
  by (simp add: dispatch_def u_def)

lemma while_h_step:
  assumes "tokenText False True 1 (st\<lparr>inWhile := inWhile st + 1\<rparr>) = Ok tx"
    and "iparse P tx = Ok nd"
    and "pp [u ''endwhile'', u ''else''] True True
           (st\<lparr>inWhile := inWhile st + 1, tokenX := tokenX st + 1\<rparr>) = Ok (body, st2)"
    and "prev_tok st2 = Ok pt" and "kind pt \<noteq> u ''else''"
  shows "while_h pp P st = Ok ([Tree (LPy nd) [body, []]], st2\<lparr>inWhile := inWhile st2 - 1\<rparr>)"
proof -
  from assms(1) obtain t where "tok (st\<lparr>inWhile := inWhile st + 1\<rparr>) = Ok t"
    by (auto simp: tokenText_def rbind_Ok)
  with assms show ?thesis
    by (simp add: while_h_def Let_def rbind_def guard_def tokenPop_def)
qed

lemma tokenize_nested_return:
  "tokenize (\<lambda>ch. False) tpl_nested_return = Inr (toks_nested_return, - 1)"
  by (simp add: tpl_nested_return_def toks_nested_return_def lex_eval is_word_def)

lemma preppy_while_body:
  "preppy (Suc (Suc n)) accept_all [u ''endwhile'', u ''else''] True True []
     (in_named_state\<lparr>inWhile := 1, tokenX := 2\<rparr>)
   = Ok ([Tree (LPy (stmt_of (u ''return a''))) []], in_named_state\<lparr>inWhile := 1, tokenX := 4\<rparr>)"
proof -
  let ?s = "in_named_state\<lparr>inWhile := 1, tokenX := 2\<rparr>"
  let ?tr = "\<lparr>kind = u ''return'', start = 25, stop = 33\<rparr>"
  let ?te = "\<lparr>kind = u ''endwhile'', start = 37, stop = 45\<rparr>"
  have t1: "tok ?s = Ok ?tr"
    by (simp add: in_named_state_def toks_nested_return_def tok_def)
  have nf: "kind ?tr \<notin> set [u ''endwhile'', u ''else'']"
    by (simp add: u_def)
  have inf: "kind ?tr \<in> set funcs"
    by (simp add: return_in_funcs)
  have ne: "inTdef ?s \<noteq> []" by (simp add: in_named_state_def)
  have tt: "tokenText False True 0 ?s = Ok (u ''return a'')"
    by (simp add: in_named_state_def tpl_nested_return_def toks_nested_return_def text_eval)
  have rh: "return_h accept_all ?s
            = Ok ([Tree (LPy (stmt_of (u ''return a''))) []], in_named_state\<lparr>inWhile := 1, tokenX := 3\<rparr>)"
    using return_h_inside [OF ne tt rparse_return_a]
    by (simp add: in_named_state_def raw_nodes_def stmt_of_def)
  have d: "dispatch (Suc n) (\<lambda>fo po fe s. preppy (Suc n) accept_all fo po fe [] s) accept_all
             (kind ?tr) ?s
           = Ok ([Tree (LPy (stmt_of (u ''return a''))) []], in_named_state\<lparr>inWhile := 1, tokenX := 3\<rparr>)"
    by (simp add: dispatch_return rh del: preppy.simps)
  have t2: "tok (in_named_state\<lparr>inWhile := 1, tokenX := 3\<rparr>) = Ok ?te"
    by (simp add: in_named_state_def toks_nested_return_def tok_def)
  have fo: "kind ?te \<in> set [u ''endwhile'', u ''else'']"
    by simp
  show ?thesis
    unfolding preppy_dispatch [OF t1 nf inf d] preppy_follower [OF t2 fo]
    by (simp add: in_named_state_def)
qed

lemma while_h_nested:
  "while_h (\<lambda>fo po fe s. preppy (Suc (Suc n)) accept_all fo po fe [] s) accept_all in_named_state
   = Ok ([Tree (LPy (stmt_of (u ''while x:'' @ [9] @ u ''pass'' @ [10])))
            [ [Tree (LPy (stmt_of (u ''return a''))) []], []]],
         in_named_state\<lparr>tokenX := 4\<rparr>)"
proof -
  let ?pp = "\<lambda>fo po fe s. preppy (Suc (Suc n)) accept_all fo po fe [] s"
  have a: "tokenText False True 1 (in_named_state\<lparr>inWhile := inWhile in_named_state + 1\<rparr>)
           = Ok (u ''while x:'' @ [9] @ u ''pass'' @ [10])"
    by (simp add: in_named_state_def tpl_nested_return_def toks_nested_return_def text_eval)
  have b: "iparse accept_all (u ''while x:'' @ [9] @ u ''pass'' @ [10])
           = Ok (stmt_of (u ''while x:'' @ [9] @ u ''pass'' @ [10]))"
    by (simp add: iparse_def rparse_def accept_all_def rbind_def stmt_of_def)
  have e: "in_named_state\<lparr>inWhile := inWhile in_named_state + 1,
                           tokenX := tokenX in_named_state + 1\<rparr>
           = in_named_state\<lparr>inWhile := 1, tokenX := 2\<rparr>"
    by (simp add: in_named_state_def)
  have c: "?pp [u ''endwhile'', u ''else''] True True
             (in_named_state\<lparr>inWhile := inWhile in_named_state + 1,
                             tokenX := tokenX in_named_state + 1\<rparr>)
           = Ok ([Tree (LPy (stmt_of (u ''return a''))) []],
                 in_named_state\<lparr>inWhile := 1, tokenX := 4\<rparr>)"
    unfolding e by (simp add: preppy_while_body del: preppy.simps)
  have p: "prev_tok (in_named_state\<lparr>inWhile := 1, tokenX := 4\<rparr>)
           = Ok \<lparr>kind = u ''endwhile'', start = 37, stop = 45\<rparr>"
    by (simp add: in_named_state_def toks_nested_return_def prev_tok_def)
  have k: "kind \<lparr>kind = u ''endwhile'', start = 37, stop = 45\<rparr> \<noteq> u ''else''"
    by (simp add: u_def)
  from while_h_step [where pp = ?pp and st = in_named_state, OF a b c p k] show ?thesis
    by (simp add: in_named_state_def)
qed

lemma preppy_named_body:
  "preppy (Suc (Suc (Suc n))) accept_all [u ''enddef''] True True [] in_named_state
   = Ok ([Tree (LPy (stmt_of (u ''while x:'' @ [9] @ u ''pass'' @ [10])))
            [ [Tree (LPy (stmt_of (u ''return a''))) []], []]],
         in_named_state\<lparr>tokenX := 5\<rparr>)"
proof -
  let ?tw = "\<lparr>kind = u ''while'', start = 14, stop = 21\<rparr>"
  let ?te = "\<lparr>kind = u ''enddef'', start = 49, stop = 55\<rparr>"
  have t1: "tok in_named_state = Ok ?tw"
    by (simp add: in_named_state_def toks_nested_return_def tok_def)
  have nf: "kind ?tw \<notin> set [u ''enddef'']"
    by (simp add: u_def)
  have inf: "kind ?tw \<in> set funcs"
    by (simp add: funcs_def u_def)
  have d: "dispatch (Suc (Suc n)) (\<lambda>fo po fe s. preppy (Suc (Suc n)) accept_all fo po fe [] s)
             accept_all (kind ?tw) in_named_state
           = Ok ([Tree (LPy (stmt_of (u ''while x:'' @ [9] @ u ''pass'' @ [10])))
                    [ [Tree (LPy (stmt_of (u ''return a''))) []], []]],
                 in_named_state\<lparr>tokenX := 4\<rparr>)"
    by (simp add: dispatch_while while_h_nested del: preppy.simps)
  have t2: "tok (in_named_state\<lparr>tokenX := 4\<rparr>) = Ok ?te"
    by (simp add: in_named_state_def toks_nested_return_def tok_def)
  have fo: "kind ?te \<in> set [u ''enddef'']"
    by simp
  show ?thesis
    unfolding preppy_dispatch [OF t1 nf inf d] preppy_follower [OF t2 fo]
    by (simp add: in_named_state_def)
qed

lemma tdef_h_nested:
  "tdef_h (\<lambda>fo po fe s. preppy (Suc (Suc (Suc n))) accept_all fo po fe [] s) accept_all
     (parser_init tpl_nested_return toks_nested_return)
   = Ok ([Tree (LPy (stmt_of (u ''def f(a):'' @ [9] @ u ''pass'')))
            [ [Tree (LPy (stmt_of (u ''while x:'' @ [9] @ u ''pass'' @ [10])))
                 [ [Tree (LPy (stmt_of (u ''return a''))) []], []],
               Tree LReturnEmpty []]]],
         (parser_init tpl_nested_return toks_nested_return)\<lparr>tokenX := 5\<rparr>)"
proof -
  let ?st = "parser_init tpl_nested_return toks_nested_return"
  let ?pp = "\<lambda>fo po fe s. preppy (Suc (Suc (Suc n))) accept_all fo po fe [] s"
  have a: "tokenText False True 1
             (?st\<lparr>inTdef := inTdef ?st @ [(inWhile ?st, inFor ?st)], inWhile := 0, inFor := 0\<rparr>)
           = Ok (u ''def f(a):'' @ [9] @ u ''pass'' @ [10])"
    by (simp add: tpl_nested_return_def toks_nested_return_def text_eval)
  have b: "iparse accept_all (strip (u ''def f(a):'' @ [9] @ u ''pass'' @ [10]))
     = Ok (stmt_of (u ''def f(a):'' @ [9] @ u ''pass''))"
    by (simp add: iparse_def rparse_def accept_all_def rbind_def strip_def is_space_def u_def
          stmt_of_def)
  have e: "?st\<lparr>inTdef := inTdef ?st @ [(inWhile ?st, inFor ?st)], inWhile := 0, inFor := 0,
               tokenX := tokenX ?st + 1\<rparr> = in_named_state"
    by (simp add: in_named_state_def parser_init_def)
  have c: "?pp [u ''enddef''] True True
           (?st\<lparr>inTdef := inTdef ?st @ [(inWhile ?st, inFor ?st)], inWhile := 0, inFor := 0,
               tokenX := tokenX ?st + 1\<rparr>)
         = Ok ([Tree (LPy (stmt_of (u ''while x:'' @ [9] @ u ''pass'' @ [10])))
                  [ [Tree (LPy (stmt_of (u ''return a''))) []], []]],
               in_named_state\<lparr>tokenX := 5\<rparr>)"
    unfolding e by (simp add: preppy_named_body del: preppy.simps)
  have d: "inTdef (in_named_state\<lparr>tokenX := 5\<rparr>) = inTdef ?st @ [(inWhile ?st, inFor ?st)]"
    by (simp add: in_named_state_def parser_init_def)
  from tdef_h_step [where pp = ?pp and st = ?st, OF a b c d] show ?thesis
    by (simp add: in_named_state_def parser_init_def)
qed

lemma parse_nested_return:
  "parse (Suc (Suc (Suc (Suc n)))) accept_all (\<lambda>ch. False) tpl_nested_return
   = Ok ([Tree (LPy (stmt_of (u ''def f(a):'' @ [9] @ u ''pass'')))
            [ [Tree (LPy (stmt_of (u ''while x:'' @ [9] @ u ''pass'' @ [10])))
                 [ [Tree (LPy (stmt_of (u ''return a''))) []], []],
               Tree LReturnEmpty []]]],
         (parser_init tpl_nested_return toks_nested_return)\<lparr>tokenX := 6\<rparr>)"
proof -
  let ?st = "parser_init tpl_nested_return toks_nested_return"
  let ?tt = "\<lparr>kind = u ''tdef'', start = 2, stop = 10\<rparr>"
  let ?te = "\<lparr>kind = u ''eof'', start = 57, stop = 57\<rparr>"
  have t1: "tok ?st = Ok ?tt"
    by (simp add: parser_init_def toks_nested_return_def tok_def)
  have nf: "kind ?tt \<notin> set [u ''eof'']"
    by (simp add: u_def)
  have inf: "kind ?tt \<in> set funcs"
    by (simp add: funcs_def u_def)
  have d: "dispatch (Suc (Suc (Suc n)))
             (\<lambda>fo po fe s. preppy (Suc (Suc (Suc n))) accept_all fo po fe [] s)
             accept_all (kind ?tt) ?st
           = Ok ([Tree (LPy (stmt_of (u ''def f(a):'' @ [9] @ u ''pass'')))
                    [ [Tree (LPy (stmt_of (u ''while x:'' @ [9] @ u ''pass'' @ [10])))
                         [ [Tree (LPy (stmt_of (u ''return a''))) []], []],
                       Tree LReturnEmpty []]]],
                 ?st\<lparr>tokenX := 5\<rparr>)"
    by (simp add: dispatch_tdef tdef_h_nested del: preppy.simps)
  have t2: "tok (?st\<lparr>tokenX := 5\<rparr>) = Ok ?te"
    by (simp add: parser_init_def toks_nested_return_def tok_def)
  have fo: "kind ?te \<in> set [u ''eof'']"
    by simp
  show ?thesis
    by (simp add: parse_def tokenize_nested_return preppy_dispatch [OF t1 nf inf d]
          preppy_follower [OF t2 fo] del: preppy.simps)
qed




end
